theory Spec2Isabelle
  imports Main "HOL-Library.AList"
begin

section \<open>JavaScript strings\<close>

text \<open>
  A JavaScript string is modelled as a \<^typ>\<open>string\<close>: a list of 8-bit characters, so the model
  covers the strings whose code units lie in U+0000..U+00FF. The characters that cannot be
  written inside a string literal get names.
\<close>

definition dquote :: char where "dquote = CHR 0x22"
definition squote :: char where "squote = CHR 0x27"
definition backslash :: char where "backslash = CHR 0x5C"
definition tab :: char where "tab = CHR 0x09"
definition newline :: char where "newline = CHR 0x0A"

text \<open>
  White space as \<open>\s\<close>, \<open>String.prototype.trim\<close> and \<open>parseInt\<close> read it
  (ECMAScript WhiteSpace and LineTerminator), restricted to U+0000..U+00FF:
  TAB, LF, VT, FF, CR, SPACE and NBSP.
\<close>

definition whitespace :: string where
  "whitespace = [CHR 0x09, CHR 0x0A, CHR 0x0B, CHR 0x0C, CHR 0x0D, CHR 0x20, CHR 0xA0]"

definition isSpace :: "char \<Rightarrow> bool" where
  "isSpace c = (c \<in> set whitespace)"

text \<open>The line terminators that \<open>.\<close> does not match (no \<open>s\<close> flag): LF and CR.\<close>

definition lineTerminators :: string where
  "lineTerminators = [CHR 0x0A, CHR 0x0D]"

definition digits :: string where
  "digits = ''0123456789''"

definition hexDigits :: string where
  "hexDigits = ''0123456789abcdefABCDEF''"

text \<open>
  \<open>String.prototype.toLowerCase\<close> on one code unit of U+0000..U+00FF: A-Z and the
  Latin-1 capitals U+00C0..U+00DE (but the multiplication sign U+00D7) move up by 32.
\<close>

definition lowerChar :: "char \<Rightarrow> char" where
  "lowerChar c =
     (let n = (of_char c :: nat) in
      if (65 \<le> n \<and> n \<le> 90) \<or> (192 \<le> n \<and> n \<le> 222 \<and> n \<noteq> 215)
      then char_of (n + 32) else c)"

definition toLowerCase :: "string \<Rightarrow> string" where
  "toLowerCase s = map lowerChar s"

definition trim :: "string \<Rightarrow> string" where
  "trim s = rev (dropWhile isSpace (rev (dropWhile isSpace s)))"

text \<open>
  \<open>s.split(/ +/)\<close> and \<open>s.split(/\s+/)\<close>: the pieces between the maximal runs of
  separator characters. A separator at the start gives a first piece \<open>""\<close>, one at the end a
  last piece \<open>""\<close>, and the empty string gives \<open>[""]\<close>. The first argument holds the piece
  being read, reversed.
\<close>

fun splitRuns :: "(char \<Rightarrow> bool) \<Rightarrow> string \<Rightarrow> string \<Rightarrow> string list" where
  "splitRuns sep acc [] = [rev acc]"
| "splitRuns sep acc [c] = (if sep c then [rev acc, []] else [rev (c # acc)])"
| "splitRuns sep acc (c # d # cs) =
     (if sep c then (if sep d then splitRuns sep acc (d # cs)
                     else rev acc # splitRuns sep [] (d # cs))
      else splitRuns sep (c # acc) (d # cs))"

definition splitSpaces :: "string \<Rightarrow> string list" where
  "splitSpaces s = splitRuns (\<lambda>c. c = CHR '' '') [] s"

definition splitWhitespace :: "string \<Rightarrow> string list" where
  "splitWhitespace s = splitRuns isSpace [] s"

text \<open>
  \<open>parts[i]\<close> as a condition and as an argument: \<open>token parts i\<close> is the \<open>i\<close>-th piece when
  it exists and is not the empty string (the two cases in which \<open>parts[i]\<close> is falsy:
  \<open>undefined\<close> and \<open>""\<close>).
\<close>

definition token :: "string list \<Rightarrow> nat \<Rightarrow> string option" where
  "token parts i = (if i < length parts \<and> parts ! i \<noteq> [] then Some (parts ! i) else None)"

section \<open>Regular expressions\<close>

text \<open>
  The patterns of the source are values of a datatype, matched by derivatives.
  \<open>OneOf cs\<close> is a character class \<open>[...]\<close>, \<open>NoneOf cs\<close> a negated class \<open>[^...]\<close>.
\<close>

datatype regex =
    Never
  | Empty
  | OneOf string
  | NoneOf string
  | Or regex regex
  | Then regex regex
  | Many regex

fun nullable :: "regex \<Rightarrow> bool" where
  "nullable Never = False"
| "nullable Empty = True"
| "nullable (OneOf cs) = False"
| "nullable (NoneOf cs) = False"
| "nullable (Or a b) = (nullable a \<or> nullable b)"
| "nullable (Then a b) = (nullable a \<and> nullable b)"
| "nullable (Many a) = True"

fun deriv :: "char \<Rightarrow> regex \<Rightarrow> regex" where
  "deriv c Never = Never"
| "deriv c Empty = Never"
| "deriv c (OneOf cs) = (if c \<in> set cs then Empty else Never)"
| "deriv c (NoneOf cs) = (if c \<in> set cs then Never else Empty)"
| "deriv c (Or a b) = Or (deriv c a) (deriv c b)"
| "deriv c (Then a b) =
     (if nullable a then Or (Then (deriv c a) b) (deriv c b) else Then (deriv c a) b)"
| "deriv c (Many a) = Then (deriv c a) (Many a)"

text \<open>\<open>matches r s\<close>: the whole of \<open>s\<close> matches \<open>r\<close> (a pattern between \<open>^\<close> and \<open>$\<close>).\<close>

fun matches :: "regex \<Rightarrow> string \<Rightarrow> bool" where
  "matches r [] = nullable r"
| "matches r (c # cs) = matches (deriv c r) cs"

text \<open>\<open>matchesPrefix r s\<close>: some prefix of \<open>s\<close> matches \<open>r\<close> (a pattern after \<open>^\<close>
  with no \<open>$\<close>).\<close>

fun matchesPrefix :: "regex \<Rightarrow> string \<Rightarrow> bool" where
  "matchesPrefix r [] = nullable r"
| "matchesPrefix r (c # cs) = (if nullable r then True else matchesPrefix (deriv c r) cs)"

text \<open>The derived forms: a literal character, a literal word, \<open>r?\<close>, \<open>r+\<close>, and
  an alternative of several patterns.\<close>

definition Lit :: "char \<Rightarrow> regex" where
  "Lit c = OneOf [c]"

fun Word :: "string \<Rightarrow> regex" where
  "Word [] = Empty"
| "Word (c # cs) = Then (Lit c) (Word cs)"

definition Opt :: "regex \<Rightarrow> regex" where
  "Opt r = Or r Empty"

definition Some1 :: "regex \<Rightarrow> regex" where
  "Some1 r = Then r (Many r)"

fun AnyOf :: "regex list \<Rightarrow> regex" where
  "AnyOf [] = Never"
| "AnyOf (r # rs) = Or r (AnyOf rs)"

fun Seq :: "regex list \<Rightarrow> regex" where
  "Seq [] = Empty"
| "Seq (r # rs) = Then r (Seq rs)"

text \<open>
  The strings a pattern stands for, to reason about all inputs of a shape at once:
  \<open>matches\<close> decides membership (\<open>matches_lang\<close> below).
\<close>

inductive_set star :: "string set \<Rightarrow> string set" for A :: "string set" where
  star_empty: "[] \<in> star A"
| star_more: "u \<in> A \<Longrightarrow> v \<in> star A \<Longrightarrow> u @ v \<in> star A"

fun lang :: "regex \<Rightarrow> string set" where
  "lang Never = {}"
| "lang Empty = {[]}"
| "lang (OneOf cs) = {[c] | c. c \<in> set cs}"
| "lang (NoneOf cs) = {[c] | c. c \<notin> set cs}"
| "lang (Or a b) = lang a \<union> lang b"
| "lang (Then a b) = {u @ v | u v. u \<in> lang a \<and> v \<in> lang b}"
| "lang (Many a) = star (lang a)"

section \<open>CSSStyleDeclarationValueParser\<close>

subsection \<open>The patterns\<close>

text \<open>\<open>[0-9a-fA-F]{3,4}\<close> and the hex alternative \<open>#([0-9a-fA-F]{3,4}){1,2}\<close>.\<close>

definition HEX_GROUP :: regex where
  "HEX_GROUP = Seq [OneOf hexDigits, OneOf hexDigits, OneOf hexDigits, Opt (OneOf hexDigits)]"

definition COLOR_HEX :: regex where
  "COLOR_HEX = Seq [Lit (CHR ''#''), HEX_GROUP, Opt HEX_GROUP]"

text \<open>\<open>rgb\(([^)]*)\)\<close> and \<open>rgba\(([^)]*)\)\<close>.\<close>

definition COLOR_RGB :: regex where
  "COLOR_RGB = Seq [Word ''rgb('', Many (NoneOf '')''), Lit (CHR '')'')]"

definition COLOR_RGBA :: regex where
  "COLOR_RGBA = Seq [Word ''rgba('', Many (NoneOf '')''), Lit (CHR '')'')]"

text \<open>\<open>(-?\d+|-?\d*.\d+)\<close>: the dot is not escaped in the source, so it stands for any
  character but a line terminator.\<close>

definition HSL_NUMBER :: regex where
  "HSL_NUMBER =
     Or (Seq [Opt (Lit (CHR ''-'')), Some1 (OneOf digits)])
        (Seq [Opt (Lit (CHR ''-'')), Many (OneOf digits), NoneOf lineTerminators,
              Some1 (OneOf digits)])"

text \<open>The last alternative of \<open>COLOR_REGEXP\<close>, which has no \<open>$\<close>:
  \<open>hsla?\(\s*N\s*,\s*N%\s*,\s*N%\s*(,\s*N\s*)?\)\<close> with \<open>N\<close> the number pattern.\<close>

definition COLOR_HSL :: regex where
  "COLOR_HSL =
     Seq [Word ''hsl'', Opt (Lit (CHR ''a'')), Lit (CHR ''(''),
          Many (OneOf whitespace), HSL_NUMBER, Many (OneOf whitespace), Lit (CHR '',''),
          Many (OneOf whitespace), HSL_NUMBER, Lit (CHR ''%''), Many (OneOf whitespace),
          Lit (CHR '',''),
          Many (OneOf whitespace), HSL_NUMBER, Lit (CHR ''%''), Many (OneOf whitespace),
          Opt (Seq [Lit (CHR '',''), Many (OneOf whitespace), HSL_NUMBER,
                    Many (OneOf whitespace)]),
          Lit (CHR '')'')]"

text \<open>\<open>COLOR_REGEXP.test(value)\<close>: every alternative starts with \<open>^\<close>; the first three
  end with \<open>$\<close>, the last does not.\<close>

definition COLOR_REGEXP_test :: "string \<Rightarrow> bool" where
  "COLOR_REGEXP_test v =
     (matches COLOR_HEX v \<or> matches COLOR_RGB v \<or> matches COLOR_RGBA v
      \<or> matchesPrefix COLOR_HSL v)"

text \<open>\<open>[-+]?[0-9]*\.?[0-9]+\<close>, the number of a length and of a percentage.\<close>

definition NUMBER :: regex where
  "NUMBER = Seq [Opt (OneOf ''-+''), Many (OneOf digits), Opt (Lit (CHR ''.'')),
                 Some1 (OneOf digits)]"

definition UNIT :: regex where
  "UNIT = AnyOf [Word ''in'', Word ''cm'', Word ''em'', Word ''mm'', Word ''pt'', Word ''pc'',
                 Word ''px'', Word ''ex'', Word ''rem'', Word ''vh'', Word ''vw'', Word ''ch'']"

definition LENGTH_REGEXP :: regex where
  "LENGTH_REGEXP = Or (Lit (CHR ''0'')) (Seq [NUMBER, UNIT])"

definition PERCENTAGE_REGEXP :: regex where
  "PERCENTAGE_REGEXP = Seq [NUMBER, Lit (CHR ''%'')]"

text \<open>\<open>^url\(\s*([^)]*)\s*\)$\<close>.\<close>

definition URL_REGEXP :: regex where
  "URL_REGEXP = Seq [Word ''url('', Many (OneOf whitespace), Many (NoneOf '')''),
                     Many (OneOf whitespace), Lit (CHR '')'')]"

text \<open>
  \<open>URL_REGEXP.exec(value)\<close>, as its first group \<open>result[1]\<close> (\<open>None\<close> when there is no
  match). A matching value is \<open>url(\<close>, a text without \<open>)\<close> and a final \<open>)\<close>. The first
  \<open>\s*\<close> is greedy and takes all the white space that follows \<open>url(\<close>; the group \<open>[^)]*\<close>
  is greedy and takes all the rest up to the final \<open>)\<close>, white space at its end included.
\<close>

definition URL_REGEXP_exec :: "string \<Rightarrow> string option" where
  "URL_REGEXP_exec v =
     (if matches URL_REGEXP v then Some (dropWhile isSpace (butlast (drop 4 v))) else None)"

subsection \<open>The recognizers\<close>

text \<open>A recognizer returns a string or \<open>null\<close>; \<open>null\<close> is \<open>None\<close>.\<close>

definition getLength :: "string \<Rightarrow> string option" where
  "getLength v =
     (if v = ''0'' then Some ''0px''
      else if matches LENGTH_REGEXP v then Some v
      else None)"

definition getPercentage :: "string \<Rightarrow> string option" where
  "getPercentage v =
     (if v = ''0'' then Some ''0%''
      else if matches PERCENTAGE_REGEXP v then Some v
      else None)"

text \<open>\<open>a || b\<close> on two results that are strings or \<open>null\<close>: \<open>a\<close> when it is truthy
  (neither \<open>null\<close> nor \<open>""\<close>), else \<open>b\<close>.\<close>

definition orElse :: "string option \<Rightarrow> string option \<Rightarrow> string option" where
  "orElse a b = (case a of None \<Rightarrow> b | Some s \<Rightarrow> if s = [] then b else a)"

definition getMeasurement :: "string \<Rightarrow> string option" where
  "getMeasurement v =
     (let lowerValue = toLowerCase v in
      if lowerValue = ''inherit'' \<or> lowerValue = ''initial'' \<or> lowerValue = ''revert''
         \<or> lowerValue = ''unset''
      then Some lowerValue
      else orElse (getLength v) (getPercentage v))"

definition getMeasurementOrAuto :: "string \<Rightarrow> string option" where
  "getMeasurementOrAuto v =
     (let lowerValue = toLowerCase v in
      if lowerValue = ''auto'' then Some lowerValue else getMeasurement v)"

text \<open>
  \<open>parseInt(value)\<close> with no radix: skip leading white space, then one optional sign, then
  \<open>0x\<close> or \<open>0X\<close> (which selects radix 16), and read the longest run of digits of the
  radix. The result is \<open>NaN\<close> exactly when that run is empty.
\<close>

definition parseIntDigits :: "string \<Rightarrow> string" where
  "parseIntDigits v =
     (let s1 = dropWhile isSpace v;
          s2 = (case s1 of [] \<Rightarrow> [] | c # r \<Rightarrow> if c = CHR ''+'' \<or> c = CHR ''-'' then r else s1)
      in if take 2 s2 = ''0x'' \<or> take 2 s2 = ''0X''
         then takeWhile (\<lambda>c. c \<in> set hexDigits) (drop 2 s2)
         else takeWhile (\<lambda>c. c \<in> set digits) s2)"

definition getInteger :: "string \<Rightarrow> string option" where
  "getInteger v = (if parseIntDigits v \<noteq> [] then Some v else None)"

definition getColor :: "string \<Rightarrow> string option" where
  "getColor v = (if COLOR_REGEXP_test v then Some v else None)"

text \<open>\<open>s[i]\<close>: the character at an index, \<open>undefined\<close> (\<open>None\<close>) outside the string.\<close>

definition charAt :: "string \<Rightarrow> int \<Rightarrow> char option" where
  "charAt s i = (if 0 \<le> i \<and> i < int (length s) then Some (s ! nat i) else None)"

text \<open>\<open>s.substring(a, b)\<close>: both indices are clamped to \<open>0..length\<close> and swapped when the
  first is the larger.\<close>

definition substring :: "string \<Rightarrow> int \<Rightarrow> int \<Rightarrow> string" where
  "substring s a b =
     (let n = int (length s);
          a' = max 0 (min a n);
          b' = max 0 (min b n);
          lo = min a' b';
          hi = max a' b'
      in take (nat (hi - lo)) (drop (nat lo) s))"

text \<open>The characters at which the scan of \<open>getURL\<close> returns \<open>null\<close>.\<close>

definition urlSpecials :: string where
  "urlSpecials = [CHR ''('', CHR '')'', CHR '' '', tab, newline, squote, dquote]"

text \<open>The loop \<open>for (let i = 0; i < url.length; i++)\<close> of \<open>getURL\<close>, from index \<open>i\<close>:
  \<open>False\<close> when it returns \<open>null\<close>, \<open>True\<close> when it runs to the end.\<close>

function urlScan :: "string \<Rightarrow> nat \<Rightarrow> bool" where
  "urlScan url i =
     (if i < length url then
        (if url ! i \<in> set urlSpecials then False
         else if url ! i = backslash then urlScan url (i + 1 + 1)
         else urlScan url (i + 1))
      else True)"
  by pat_completeness auto
termination
  by (relation "measure (\<lambda>(url, i). length url - i)") auto

declare urlScan.simps [simp del]

definition getURL :: "string \<Rightarrow> string option" where
  "getURL v =
     (if v = [] then None
      else
        let lowerValue = toLowerCase v in
        if lowerValue = ''none'' \<or> lowerValue = ''inherit'' then Some lowerValue
        else
          (case URL_REGEXP_exec v of
             None \<Rightarrow> None
           | Some url \<Rightarrow>
               let quoted = (charAt url 0 = Some dquote \<or> charAt url 0 = Some squote) in
               if quoted \<and> charAt url 0 \<noteq> charAt url (int (length url) - 1) then None
               else
                 let url' = (if quoted then substring url 1 (int (length url) - 1) else url)
                 in if urlScan url' 0 then Some v else None))"

text \<open>
  The scan as the specification words it, to compare with the loop: a backslash escapes the
  character that follows it, and no other character of the token is one of
  \<open>( ) space tab newline ' "\<close>.
\<close>

fun hasNoUnescapedSpecial :: "string \<Rightarrow> bool" where
  "hasNoUnescapedSpecial [] = True"
| "hasNoUnescapedSpecial (c # cs) =
     (if c = backslash then hasNoUnescapedSpecial (drop 1 cs)
      else c \<notin> set urlSpecials \<and> hasNoUnescapedSpecial cs)"

section \<open>CSSStyleDeclarationPropertyValueParser\<close>

subsection \<open>Property values\<close>

text \<open>
  \<open>ICSSStyleDeclarationPropertyValue\<close> is \<open>{ value, important }\<close>. The field \<open>value\<close> is
  written \<open>val\<close> here; it is a string or \<open>null\<close> (\<open>None\<close>). An object
  \<open>{ [key: string]: ICSSStyleDeclarationPropertyValue }\<close> is an association list in insertion
  order; \<open>obj[k] = v\<close> is \<^const>\<open>AList.update\<close>, which overwrites in place or appends.
\<close>

record ICSSStyleDeclarationPropertyValue =
  val :: "string option"
  important :: bool

type_synonym propertyValues = "(string \<times> ICSSStyleDeclarationPropertyValue) list"

text \<open>A run of assignments \<open>obj[k1] = v1; obj[k2] = v2; ...\<close>, in order.\<close>

fun assign :: "(string \<times> 'v) list \<Rightarrow> (string \<times> 'v) list \<Rightarrow> (string \<times> 'v) list" where
  "assign [] obj = obj"
| "assign ((k, v) # kvs) obj = assign kvs (AList.update k v obj)"

text \<open>
  \<open>obj[k]\<close> on the result of a property parser, in the places where the source reads back
  the one key that parser writes. The default stands for a missing key and is never used there
  (see \<open>getBorderWidth_key\<close> and \<open>getBorderStyle_key\<close>).
\<close>

definition entryOf :: "propertyValues \<Rightarrow> string \<Rightarrow> ICSSStyleDeclarationPropertyValue" where
  "entryOf obj k =
     (case map_of obj k of Some pv \<Rightarrow> pv | None \<Rightarrow> \<lparr>val = None, important = False\<rparr>)"

text \<open>
  The value of \<open>parts[i] ? f(parts[i]) : ''\<close>: the empty string when the token is missing,
  else what \<open>f\<close> returns, \<open>null\<close> or a result.
\<close>

datatype 'a slot = EmptyString | Null | Result 'a

definition slotOf :: "string list \<Rightarrow> nat \<Rightarrow> (string \<Rightarrow> 'a option) \<Rightarrow> 'a slot" where
  "slotOf parts i f =
     (case token parts i of
        None \<Rightarrow> EmptyString
      | Some p \<Rightarrow> (case f p of None \<Rightarrow> Null | Some r \<Rightarrow> Result r))"

text \<open>Truthiness of such a value when the result is an object, and when it is a string.\<close>

fun truthyObject :: "'a slot \<Rightarrow> bool" where
  "truthyObject (Result r) = True"
| "truthyObject EmptyString = False"
| "truthyObject Null = False"

fun truthyString :: "string slot \<Rightarrow> bool" where
  "truthyString (Result r) = (r \<noteq> [])"
| "truthyString EmptyString = False"
| "truthyString Null = False"

text \<open>Truthiness of a recognizer's result (a string or \<open>null\<close>).\<close>

definition truthy :: "string option \<Rightarrow> bool" where
  "truthy r = (case r of None \<Rightarrow> False | Some s \<Rightarrow> s \<noteq> [])"

subsection \<open>The keyword lists\<close>

definition BORDER_STYLE :: "string list" where
  "BORDER_STYLE = [''none'', ''hidden'', ''dotted'', ''dashed'', ''solid'', ''double'',
                   ''groove'', ''ridge'', ''inset'', ''outset'']"

definition BORDER_WIDTH :: "string list" where
  "BORDER_WIDTH = [''thin'', ''medium'', ''thick'', ''inherit'', ''initial'', ''unset'',
                   ''revert'']"

definition BACKGROUND_REPEAT :: "string list" where
  "BACKGROUND_REPEAT = [''repeat'', ''repeat-x'', ''repeat-y'', ''no-repeat'', ''inherit'']"

definition BACKGROUND_ATTACHMENT :: "string list" where
  "BACKGROUND_ATTACHMENT = [''scroll'', ''fixed'', ''inherit'']"

definition BACKGROUND_POSITION :: "string list" where
  "BACKGROUND_POSITION = [''top'', ''center'', ''bottom'', ''left'', ''right'']"

definition FLEX_BASIS :: "string list" where
  "FLEX_BASIS = [''auto'', ''fill'', ''max-content'', ''min-content'', ''fit-content'',
                 ''content'', ''inherit'', ''initial'', ''revert'', ''unset'']"

subsection \<open>Single properties\<close>

definition getBorderStyle :: "string \<Rightarrow> bool \<Rightarrow> propertyValues option" where
  "getBorderStyle v imp =
     (let lowerValue = toLowerCase v in
      if lowerValue \<in> set BORDER_STYLE
      then Some [(''border-style'', \<lparr>val = Some lowerValue, important = imp\<rparr>)]
      else None)"

definition getBackgroundRepeat :: "string \<Rightarrow> bool \<Rightarrow> propertyValues option" where
  "getBackgroundRepeat v imp =
     (let lowerValue = toLowerCase v in
      if lowerValue \<in> set BACKGROUND_REPEAT
      then Some [(''background-repeat'', \<lparr>val = Some lowerValue, important = imp\<rparr>)]
      else None)"

definition getBackgroundAttachment :: "string \<Rightarrow> bool \<Rightarrow> propertyValues option" where
  "getBackgroundAttachment v imp =
     (let lowerValue = toLowerCase v in
      if lowerValue \<in> set BACKGROUND_ATTACHMENT
      then Some [(''background-attachment'', \<lparr>val = Some lowerValue, important = imp\<rparr>)]
      else None)"

definition getBackgroundPosition :: "string \<Rightarrow> bool \<Rightarrow> propertyValues option" where
  "getBackgroundPosition v imp =
     (if v = [] then None
      else
        let parts = splitWhitespace v in
        if length parts > 2 \<or> length parts < 1 then None
        else if length parts = 1 then
          (if truthy (getLength (parts ! 0))
           then Some [(''background-position'', \<lparr>val = Some v, important = imp\<rparr>)]
           else if parts ! 0 \<noteq> [] \<and>
                   (toLowerCase v \<in> set BACKGROUND_POSITION \<or> toLowerCase v = ''inherit'')
           then Some [(''background-position'', \<lparr>val = Some (toLowerCase v), important = imp\<rparr>)]
           else None)
        else if (truthy (getLength (parts ! 0)) \<or> truthy (getPercentage (parts ! 0))) \<and>
                (truthy (getLength (parts ! 1)) \<or> truthy (getPercentage (parts ! 1)))
        then Some [(''background-position'', \<lparr>val = Some (toLowerCase v), important = imp\<rparr>)]
        else if toLowerCase (parts ! 0) \<in> set BACKGROUND_POSITION \<and>
                toLowerCase (parts ! 1) \<in> set BACKGROUND_POSITION
        then Some [(''background-position'',
                    \<lparr>val = Some (toLowerCase (parts ! 0) @ '' '' @ toLowerCase (parts ! 1)),
                     important = imp\<rparr>)]
        else None)"

text \<open>\<open>getFlexBasis\<close> returns an object on both paths: on the second the value is
  whatever \<open>getLength\<close> returns, \<open>null\<close> included.\<close>

definition getFlexBasis :: "string \<Rightarrow> bool \<Rightarrow> propertyValues option" where
  "getFlexBasis v imp =
     (let lowerValue = toLowerCase v in
      if lowerValue \<in> set FLEX_BASIS
      then Some [(''flex-basis'', \<lparr>val = Some lowerValue, important = imp\<rparr>)]
      else Some [(''flex-basis'', \<lparr>val = getLength v, important = imp\<rparr>)])"

definition getBorderWidth :: "string \<Rightarrow> bool \<Rightarrow> propertyValues option" where
  "getBorderWidth v imp =
     (let lowerValue = toLowerCase v in
      if lowerValue \<in> set BORDER_WIDTH
      then Some [(''border-width'', \<lparr>val = Some lowerValue, important = imp\<rparr>)]
      else
        let len = getLength v in
        if truthy len then Some [(''border-width'', \<lparr>val = len, important = imp\<rparr>)]
        else None)"

subsection \<open>Shorthands that return their entries\<close>

definition getBorder :: "string \<Rightarrow> bool \<Rightarrow> propertyValues option" where
  "getBorder v imp =
     (let parts = splitSpaces v;
          borderWidth = slotOf parts 0 (\<lambda>p. getBorderWidth p imp);
          borderStyle = slotOf parts 1 (\<lambda>p. getBorderStyle p imp);
          borderColor = slotOf parts 2 getColor;
          pv0 = [];
          pv1 = (case borderWidth of
                   Result w \<Rightarrow>
                     assign [(''border-top-width'', entryOf w ''border-width''),
                             (''border-right-width'', entryOf w ''border-width''),
                             (''border-bottom-width'', entryOf w ''border-width''),
                             (''border-left-width'', entryOf w ''border-width'')] pv0
                 | _ \<Rightarrow> pv0);
          pv2 = (case borderStyle of
                   Result s \<Rightarrow>
                     assign [(''border-top-style'', entryOf s ''border-style''),
                             (''border-right-style'', entryOf s ''border-style''),
                             (''border-bottom-style'', entryOf s ''border-style''),
                             (''border-left-style'', entryOf s ''border-style'')] pv1
                 | _ \<Rightarrow> pv1);
          pv3 = (case borderColor of
                   Result c \<Rightarrow>
                     if c \<noteq> [] then
                       assign [(''border-top-style'', \<lparr>val = Some c, important = imp\<rparr>),
                               (''border-right-style'', \<lparr>val = Some c, important = imp\<rparr>),
                               (''border-bottom-style'', \<lparr>val = Some c, important = imp\<rparr>),
                               (''border-left-style'', \<lparr>val = Some c, important = imp\<rparr>)] pv2
                     else pv2
                 | _ \<Rightarrow> pv2)
      in if truthyObject borderWidth \<and> borderStyle \<noteq> Null \<and> borderColor \<noteq> Null
         then Some pv3 else None)"

definition getBorderRadius :: "string \<Rightarrow> bool \<Rightarrow> propertyValues option" where
  "getBorderRadius v imp =
     (let parts = splitSpaces v;
          topLeft = slotOf parts 0 getMeasurement;
          topRight = slotOf parts 1 getMeasurement;
          bottomRight = slotOf parts 2 getMeasurement;
          bottomLeft = slotOf parts 3 getMeasurement;
          entry = (\<lambda>k s pv. case s of
                     Result m \<Rightarrow>
                       if m \<noteq> [] then AList.update k \<lparr>val = Some m, important = imp\<rparr> pv else pv
                   | _ \<Rightarrow> pv);
          pv1 = entry ''border-top-left-radius'' topLeft [];
          pv2 = entry ''border-top-right-radius'' topRight pv1;
          pv3 = entry ''border-bottom-right-radius'' bottomRight pv2;
          pv4 = entry ''border-bottom-left-radius'' bottomLeft pv3
      in if truthyString topLeft \<and> topRight \<noteq> Null \<and> bottomRight \<noteq> Null \<and> bottomLeft \<noteq> Null
         then Some pv4 else None)"

datatype position = top | right | bottom | left

fun positionName :: "position \<Rightarrow> string" where
  "positionName top = ''top''"
| "positionName right = ''right''"
| "positionName bottom = ''bottom''"
| "positionName left = ''left''"

definition getBorderByPosition :: "position \<Rightarrow> string \<Rightarrow> bool \<Rightarrow> propertyValues option" where
  "getBorderByPosition pos v imp =
     (let parts = splitSpaces v;
          borderWidth = slotOf parts 0 (\<lambda>p. getBorderWidth p imp);
          borderStyle = slotOf parts 1 (\<lambda>p. getBorderStyle p imp);
          borderColor = slotOf parts 2 getColor
      in case (borderWidth, borderStyle, borderColor) of
           (Result w, Result s, Result c) \<Rightarrow>
             if c \<noteq> [] then
               Some (assign
                 [(''border-'' @ positionName pos @ ''-width'', entryOf w ''border-width''),
                  (''border-'' @ positionName pos @ ''-style'', entryOf s ''border-style''),
                  (''border-'' @ positionName pos @ ''-color'', \<lparr>val = Some c, important = imp\<rparr>)]
                 [])
             else None
         | _ \<Rightarrow> None)"

definition getMarginByPosition :: "position \<Rightarrow> string \<Rightarrow> bool \<Rightarrow> propertyValues option" where
  "getMarginByPosition pos v imp =
     (let lowerValue = toLowerCase v in
      if lowerValue = ''auto''
      then Some [(''margin-'' @ positionName pos, \<lparr>val = Some ''auto'', important = imp\<rparr>)]
      else
        let measurement = getMeasurement v in
        if truthy measurement
        then Some [(''margin-'' @ positionName pos, \<lparr>val = measurement, important = imp\<rparr>)]
        else None)"

definition getPaddingByPosition :: "position \<Rightarrow> string \<Rightarrow> bool \<Rightarrow> propertyValues option" where
  "getPaddingByPosition pos v imp =
     (let measurement = getMeasurement v in
      if truthy measurement
      then Some [(''padding-'' @ positionName pos, \<lparr>val = measurement, important = imp\<rparr>)]
      else None)"

text \<open>
  \<open>parts[i] ? f(parts[0]) : ''\<close>, the form \<open>getPadding\<close> and \<open>getMargin\<close> use for the right,
  bottom and left sides: the token at \<open>i\<close> decides whether \<open>f\<close> is called, and \<open>f\<close> is called
  on \<open>parts[0]\<close>. (\<open>parts[0]\<close> is always a string: \<open>split\<close> returns at least one piece.)
\<close>

definition slotOfFirst :: "string list \<Rightarrow> nat \<Rightarrow> (string \<Rightarrow> 'a option) \<Rightarrow> 'a slot" where
  "slotOfFirst parts i f =
     (case token parts i of
        None \<Rightarrow> EmptyString
      | Some p \<Rightarrow> (case f (parts ! 0) of None \<Rightarrow> Null | Some r \<Rightarrow> Result r))"

text \<open>\<open>if (x) { Object.assign(propertyValues, x); }\<close>.\<close>

fun objectAssign :: "propertyValues \<Rightarrow> propertyValues slot \<Rightarrow> propertyValues" where
  "objectAssign pv (Result x) = assign x pv"
| "objectAssign pv EmptyString = pv"
| "objectAssign pv Null = pv"

definition getPadding :: "string \<Rightarrow> bool \<Rightarrow> propertyValues option" where
  "getPadding v imp =
     (let parts = splitSpaces v;
          t = slotOf parts 0 (\<lambda>p. getPaddingByPosition top p imp);
          r = slotOfFirst parts 1 (\<lambda>p. getPaddingByPosition right p imp);
          b = slotOfFirst parts 2 (\<lambda>p. getPaddingByPosition bottom p imp);
          l = slotOfFirst parts 3 (\<lambda>p. getPaddingByPosition left p imp);
          propertyValues = objectAssign (objectAssign (objectAssign (objectAssign [] t) r) b) l
      in if truthyObject t \<and> r \<noteq> Null \<and> b \<noteq> Null \<and> l \<noteq> Null then Some propertyValues
         else None)"

definition getMargin :: "string \<Rightarrow> bool \<Rightarrow> propertyValues option" where
  "getMargin v imp =
     (let parts = splitSpaces v;
          t = slotOf parts 0 (\<lambda>p. getMarginByPosition top p imp);
          r = slotOfFirst parts 1 (\<lambda>p. getMarginByPosition right p imp);
          b = slotOfFirst parts 2 (\<lambda>p. getMarginByPosition bottom p imp);
          l = slotOfFirst parts 3 (\<lambda>p. getMarginByPosition left p imp);
          propertyValues = objectAssign (objectAssign (objectAssign (objectAssign [] t) r) b) l
      in if truthyObject t \<and> r \<noteq> Null \<and> b \<noteq> Null \<and> l \<noteq> Null then Some propertyValues
         else None)"


subsection \<open>Shorthands that write to \<open>this.properties\<close>\<close>

text \<open>
  \<open>getFlex\<close> and \<open>getBackground\<close> return nothing: they assign to
  \<open>this.properties[...]\<close> and call \<open>this.getInteger\<close>, \<open>this.getColor\<close> and
  \<open>this.getURL\<close>. Both are static methods, so \<open>this\<close> is the class
  \<open>CSSStyleDeclarationPropertyValueParser\<close> itself. Its static members are the methods
  \<open>getBorderStyle\<close>, \<open>getBorderCollapse\<close>, \<open>getBackgroundRepeat\<close>,
  \<open>getBackgroundAttachment\<close>, \<open>getBackgroundPosition\<close>, \<open>getFlexBasis\<close>,
  \<open>getBorderWidth\<close>, \<open>getClear\<close>, \<open>getClip\<close>, \<open>getFloat\<close>, \<open>getFontSize\<close>,
  \<open>getBorder\<close>, \<open>getBorderRadius\<close>, \<open>getBorderTop\<close>, \<open>getBorderRight\<close>,
  \<open>getBorderBottom\<close>, \<open>getBorderLeft\<close>, \<open>getPadding\<close>, \<open>getPaddingTop\<close>,
  \<open>getPaddingRight\<close>, \<open>getPaddingBottom\<close>, \<open>getPaddingLeft\<close>, \<open>getMargin\<close>,
  \<open>getMarginTop\<close>, \<open>getMarginRight\<close>, \<open>getMarginBottom\<close>, \<open>getMarginLeft\<close>,
  \<open>getFlex\<close>, \<open>getBackground\<close>, \<open>getBorderByPosition\<close>, \<open>getMarginByPosition\<close> and
  \<open>getPaddingByPosition\<close>, and nothing else: \<open>getInteger\<close>, \<open>getColor\<close> and \<open>getURL\<close>
  are static methods of the other class, \<open>CSSStyleDeclarationValueParser\<close>.

  The values of these two methods are dynamically typed (a slot holds \<open>''\<close>, \<open>null\<close>, a
  string or an object, and an object is stored as the \<open>value\<close> of an entry), so they are
  modelled on JavaScript values, and an exception is a result of its own.
\<close>

datatype error = TypeError

datatype jsval =
    Undefined
  | JNull
  | Str string
  | Bool bool
  | Object "(string \<times> jsval) list"

fun jsTruthy :: "jsval \<Rightarrow> bool" where
  "jsTruthy Undefined = False"
| "jsTruthy JNull = False"
| "jsTruthy (Str s) = (s \<noteq> [])"
| "jsTruthy (Bool b) = b"
| "jsTruthy (Object kvs) = True"

text \<open>The results of the typed functions above as JavaScript values.\<close>

definition jsOfString :: "string option \<Rightarrow> jsval" where
  "jsOfString r = (case r of None \<Rightarrow> JNull | Some s \<Rightarrow> Str s)"

text \<open>
  \<open>getFlex\<close> and \<open>getBackground\<close> call the property parsers with one argument
  (\<open>this.getFlexBasis(parts[2])\<close>), so the parameter \<open>important\<close> is \<open>undefined\<close> and each
  entry of the result holds \<open>important: undefined\<close>. \<open>jsOfPropertyValues imp r\<close> is the result
  \<open>r\<close> with \<open>imp\<close> as the \<open>important\<close> of every entry.
\<close>

definition jsOfPropertyValues :: "jsval \<Rightarrow> propertyValues option \<Rightarrow> jsval" where
  "jsOfPropertyValues imp r =
     (case r of
        None \<Rightarrow> JNull
      | Some kvs \<Rightarrow>
          Object (map (\<lambda>(k, pv). (k, Object [(''value'', jsOfString (val pv)),
                                                    (''important'', imp)])) kvs))"

text \<open>
  \<open>this\<close>, as far as the two methods use it: the members \<open>properties\<close>, \<open>getInteger\<close>,
  \<open>getColor\<close> and \<open>getURL\<close> of the receiver, each \<open>undefined\<close> (\<open>None\<close>) when the receiver
  does not have it. The other members they use (\<open>getFlexBasis\<close>, \<open>getBackgroundRepeat\<close>,
  \<open>getBackgroundAttachment\<close>, \<open>getBackgroundPosition\<close>) are the static methods above.
\<close>

type_synonym properties = "(string \<times> jsval) list option"

record receiver =
  this_properties :: properties
  this_getInteger :: "(string \<Rightarrow> jsval) option"
  this_getColor :: "(string \<Rightarrow> jsval) option"
  this_getURL :: "(string \<Rightarrow> jsval) option"

text \<open>The class as the source declares it: none of the four is a member.\<close>

definition theClass :: receiver where
  "theClass = \<lparr>this_properties = None, this_getInteger = None, this_getColor = None,
                this_getURL = None\<rparr>"

text \<open>Calling a member that is \<open>undefined\<close> throws a TypeError.\<close>

definition callMember :: "(string \<Rightarrow> jsval) option \<Rightarrow> string \<Rightarrow> error + jsval" where
  "callMember m arg = (case m of None \<Rightarrow> Inl TypeError | Some f \<Rightarrow> Inr (f arg))"

text \<open>
  \<open>this.properties[k] = v\<close>: \<open>this.properties\<close> is the state both methods write to, threaded
  through the assignments and returned. Assigning to a property of \<open>undefined\<close> throws.
\<close>

definition setProperty :: "properties \<Rightarrow> string \<Rightarrow> jsval \<Rightarrow> error + properties" where
  "setProperty ps k v =
     (case ps of None \<Rightarrow> Inl TypeError | Some obj \<Rightarrow> Inr (Some (AList.update k v obj)))"

definition andThen :: "error + 'a \<Rightarrow> ('a \<Rightarrow> error + 'b) \<Rightarrow> error + 'b" where
  "andThen r f = (case r of Inl e \<Rightarrow> Inl e | Inr x \<Rightarrow> f x)"

text \<open>The object literal \<open>{ important, value: v }\<close>.\<close>

definition entry :: "bool \<Rightarrow> jsval \<Rightarrow> jsval" where
  "entry imp v = Object [(''important'', Bool imp), (''value'', v)]"

text \<open>\<open>parts[i] ? this.m(parts[i]) : ''\<close> for a member \<open>m\<close> of the class.\<close>

definition memberSlot ::
  "string list \<Rightarrow> nat \<Rightarrow> (string \<Rightarrow> jsval) option \<Rightarrow> error + jsval" where
  "memberSlot parts i m =
     (case token parts i of None \<Rightarrow> Inr (Str []) | Some p \<Rightarrow> callMember m p)"

text \<open>\<open>parts[i] ? this.m(parts[i]) : ''\<close> for one of the property parsers above.\<close>

definition parserSlot ::
  "string list \<Rightarrow> nat \<Rightarrow> (string \<Rightarrow> bool \<Rightarrow> propertyValues option) \<Rightarrow> jsval" where
  "parserSlot parts i f =
     (case token parts i of
        None \<Rightarrow> Str []
      | Some p \<Rightarrow> jsOfPropertyValues Undefined (f p False))"

text \<open>
  Both methods take the receiver and return what \<open>this.properties\<close> is when they return,
  or the exception.
\<close>

definition getFlex :: "receiver \<Rightarrow> string \<Rightarrow> string \<Rightarrow> bool \<Rightarrow> error + properties" where
  "getFlex this name v imp =
     (let ps = this_properties this;
          lowerValue = toLowerCase (trim v) in
      if lowerValue = ''none'' then
        andThen (setProperty ps ''flex-grow'' (entry imp (Str ''0''))) (\<lambda>ps.
        andThen (setProperty ps ''flex-shrink'' (entry imp (Str ''0''))) (\<lambda>ps.
        setProperty ps ''flex-basis'' (entry imp (Str ''auto''))))
      else if lowerValue = ''auto'' then
        andThen (setProperty ps ''flex-grow'' (entry imp (Str ''1''))) (\<lambda>ps.
        andThen (setProperty ps ''flex-shrink'' (entry imp (Str ''1''))) (\<lambda>ps.
        setProperty ps ''flex-basis'' (entry imp (Str ''auto''))))
      else if lowerValue = ''initial'' then
        andThen (setProperty ps ''flex-grow'' (entry imp (Str ''0''))) (\<lambda>ps.
        andThen (setProperty ps ''flex-shrink'' (entry imp (Str ''0''))) (\<lambda>ps.
        setProperty ps ''flex-basis'' (entry imp (Str ''auto''))))
      else if lowerValue = ''inherit'' then
        andThen (setProperty ps ''flex-grow'' (entry imp (Str ''inherit''))) (\<lambda>ps.
        andThen (setProperty ps ''flex-shrink'' (entry imp (Str ''inherit''))) (\<lambda>ps.
        setProperty ps ''flex-basis'' (entry imp (Str ''inherit''))))
      else
        let parts = splitSpaces v in
        andThen (memberSlot parts 0 (this_getInteger this)) (\<lambda>flexGrow.
        andThen (memberSlot parts 1 (this_getInteger this)) (\<lambda>flexShrink.
        let flexBasis = parserSlot parts 2 getFlexBasis in
        if jsTruthy flexGrow \<and> jsTruthy flexShrink \<and> jsTruthy flexBasis then
          andThen (setProperty ps ''flex-grow'' (entry imp flexGrow)) (\<lambda>ps.
          andThen (setProperty ps ''flex-shrink'' (entry imp flexShrink)) (\<lambda>ps.
          setProperty ps ''flex-basis'' (entry imp flexBasis)))
        else Inr ps)))"

definition getBackground :: "receiver \<Rightarrow> string \<Rightarrow> string \<Rightarrow> bool \<Rightarrow> error + properties" where
  "getBackground this name v imp =
     (let ps = this_properties this;
          parts = splitSpaces v in
      if token parts 0 = None then Inr ps
      else
        andThen (callMember (this_getColor this) (parts ! 0)) (\<lambda>first.
        let parts = (if jsTruthy first then parts else [] # parts) in
        andThen (memberSlot parts 0 (this_getColor this)) (\<lambda>color.
        andThen (memberSlot parts 1 (this_getURL this)) (\<lambda>image.
        let repeat = parserSlot parts 2 getBackgroundRepeat;
            attachment = parserSlot parts 3 getBackgroundAttachment;
            position = parserSlot parts 4 getBackgroundPosition
        in
        if (jsTruthy color \<or> jsTruthy image) \<and> repeat \<noteq> JNull \<and> attachment \<noteq> JNull
           \<and> position \<noteq> JNull
        then
          andThen (if jsTruthy color then setProperty ps ''background-color'' (entry imp color)
                   else Inr ps) (\<lambda>ps.
          andThen (if jsTruthy image then setProperty ps ''background-image'' (entry imp image)
                   else Inr ps) (\<lambda>ps.
          andThen (setProperty ps ''background-repeat'' (entry imp repeat)) (\<lambda>ps.
          andThen (setProperty ps ''background-attachment'' (entry imp attachment)) (\<lambda>ps.
          setProperty ps ''background-position'' (entry imp position)))))
        else Inr ps))))"


text \<open>
  For comparison, a receiver on which \<open>getInteger\<close>, \<open>getColor\<close> and \<open>getURL\<close> are the
  static methods of \<open>CSSStyleDeclarationValueParser\<close> and \<open>properties\<close> is an empty object.
  It is not the class of the source.
\<close>

definition patchedClass :: receiver where
  "patchedClass =
     \<lparr>this_properties = Some [],
      this_getInteger = Some (\<lambda>v. jsOfString (getInteger v)),
      this_getColor = Some (\<lambda>v. jsOfString (getColor v)),
      this_getURL = Some (\<lambda>v. jsOfString (getURL v))\<rparr>"

section \<open>Properties\<close>

subsection \<open>Hex colors\<close>

text \<open>
  Claim C7: for a \<open>#\<close> followed by \<open>n\<close> hexadecimal digits the color recognizer accepts
  exactly when \<open>n\<close> is 3, 4, 6 or 8. The pattern \<open>#([0-9a-fA-F]{3,4}){1,2}\<close> also accepts a
  group of three digits followed by a group of four: \<open>getColor\<close> accepts \<open>#1234567\<close>, seven
  digits, and returns it unchanged.
\<close>

theorem getColor_seven_hex_digits: "getColor ''#1234567'' = Some ''#1234567''"
  by code_simp

text \<open>The two instances the claim names do hold: \<open>#fff\<close> is accepted and \<open>#ff\<close> rejected.\<close>

lemma getColor_fff: "getColor ''#fff'' = Some ''#fff''"
  by code_simp

lemma getColor_ff: "getColor ''#ff'' = None"
  by code_simp

subsection \<open>flex-basis\<close>

text \<open>
  Claim C6: \<open>flex-basis\<close> is accepted exactly for the ten keywords and the valid lengths, and
  every other value is rejected with no entry. \<open>getFlexBasis\<close> has no rejecting path: for
  \<open>abc\<close>, neither a keyword nor a length, it returns the entry \<open>flex-basis\<close> with the value
  \<open>null\<close>, where \<open>getBorderWidth\<close> and \<open>getFontSize\<close> return \<open>null\<close> for the whole result.
\<close>

theorem getFlexBasis_abc:
  "getFlexBasis ''abc'' False = Some [(''flex-basis'', \<lparr>val = None, important = False\<rparr>)]"
  by code_simp

lemma getBorderWidth_abc: "getBorderWidth ''abc'' False = None"
  by code_simp

lemma getFlexBasis_never_null: "getFlexBasis v imp \<noteq> None"
  by (simp add: getFlexBasis_def Let_def)

subsection \<open>padding and margin\<close>

text \<open>
  Claim C4: \<open>padding\<close> and \<open>margin\<close> map token \<open>i\<close> to side \<open>i\<close>, and each emitted side
  carries its own token's canonical form. \<open>getPadding\<close> and \<open>getMargin\<close> test \<open>parts[1]\<close>,
  \<open>parts[2]\<close> and \<open>parts[3]\<close> for presence but parse \<open>parts[0]\<close> for every side: for
  \<open>1px 2px\<close> the right side carries \<open>1px\<close>, not \<open>2px\<close>.
\<close>

theorem getPadding_getMargin_reuse_first_token:
  "getPadding ''1px 2px'' False =
     Some [(''padding-top'', \<lparr>val = Some ''1px'', important = False\<rparr>),
           (''padding-right'', \<lparr>val = Some ''1px'', important = False\<rparr>)]
   \<and> getMargin ''1px 2px'' False =
     Some [(''margin-top'', \<lparr>val = Some ''1px'', important = False\<rparr>),
           (''margin-right'', \<lparr>val = Some ''1px'', important = False\<rparr>)]"
  by code_simp

text \<open>A second token that is no measurement at all is accepted for the same reason, and
  \<open>getBorderRadius\<close>, written the same way, does parse each corner's own token.\<close>

lemma getPadding_invalid_second_token:
  "getPadding ''1px junk'' False =
     Some [(''padding-top'', \<lparr>val = Some ''1px'', important = False\<rparr>),
           (''padding-right'', \<lparr>val = Some ''1px'', important = False\<rparr>)]"
  by code_simp

lemma getBorderRadius_own_tokens:
  "getBorderRadius ''1px 2px'' False =
     Some [(''border-top-left-radius'', \<lparr>val = Some ''1px'', important = False\<rparr>),
           (''border-top-right-radius'', \<lparr>val = Some ''2px'', important = False\<rparr>)]"
  by code_simp

subsection \<open>flex\<close>

text \<open>
  Claim C3: \<open>flex\<close> with \<open>none\<close> emits \<open>flex-grow = 0\<close>, \<open>flex-shrink = 0\<close> and
  \<open>flex-basis = auto\<close>, and with \<open>abc\<close> emits nothing and does not fail. On the class as
  declared \<open>getFlex\<close> throws a TypeError for both: for \<open>none\<close> on the first assignment to
  \<open>this.properties\<close>, for \<open>abc\<close> on the call of \<open>this.getInteger\<close>, and for \<open>abc\<close> also when
  an object has been attached as \<open>this.properties\<close>.
\<close>

theorem getFlex_abc_none_throw:
  "getFlex theClass name ''none'' imp = Inl TypeError
   \<and> getFlex theClass name ''abc'' imp = Inl TypeError
   \<and> getFlex (theClass\<lparr>this_properties := Some obj\<rparr>) name ''abc'' imp = Inl TypeError"
  by code_simp

text \<open>With an object attached as \<open>this.properties\<close>, \<open>none\<close> does write the three entries.\<close>

lemma getFlex_none_with_properties:
  "getFlex (this\<lparr>this_properties := Some obj\<rparr>) name ''none'' imp =
     Inr (Some (assign [(''flex-grow'', entry imp (Str ''0'')),
                        (''flex-shrink'', entry imp (Str ''0'')),
                        (''flex-basis'', entry imp (Str ''auto''))] obj))"
proof -
  have "toLowerCase (trim ''none'') = ''none''"
    by code_simp
  then show ?thesis
    by (simp add: getFlex_def setProperty_def andThen_def)
qed

text \<open>Without \<open>this.getInteger\<close> the positional path never emits: a first or second token
  throws, and without them the condition \<open>flexGrow && flexShrink && flexBasis\<close> is false.\<close>

lemma memberSlot_undefined:
  "memberSlot parts i None = (if token parts i = None then Inr (Str []) else Inl TypeError)"
  by (simp add: memberSlot_def callMember_def split: option.splits)

lemma getFlex_positional:
  assumes "toLowerCase (trim v) \<notin> {''none'', ''auto'', ''initial'', ''inherit''}"
    and "this_getInteger this = None"
  shows "getFlex this name v imp =
           (if token (splitSpaces v) 0 = None \<and> token (splitSpaces v) 1 = None
            then Inr (this_properties this) else Inl TypeError)"
  using assms
  by (simp add: getFlex_def Let_def memberSlot_undefined andThen_def)

subsection \<open>background\<close>

text \<open>
  Claim C5: \<open>background\<close> succeeds when a color or an image is present and every other
  present token is valid, and emits the longhands whose token is present and valid.
  \<open>getBackground\<close> returns at once when the first token is empty, and otherwise calls
  \<open>this.getColor\<close>, which the class does not have: it throws a TypeError on every value with
  a first token and never writes an entry, also when an object has been attached as
  \<open>this.properties\<close>.
\<close>

theorem getBackground_throws:
  "getBackground (theClass\<lparr>this_properties := ps\<rparr>) name v imp =
     (if token (splitSpaces v) 0 = None then Inr ps else Inl TypeError)"
  by (simp add: getBackground_def theClass_def Let_def callMember_def andThen_def)

lemma getBackground_fff: "getBackground theClass name ''#fff'' imp = Inl TypeError"
  by code_simp

subsection \<open>No abnormal failure\<close>

text \<open>
  Claim C2: every recognizer and shorthand expander returns normally on every input.
  \<open>getFlex\<close> and \<open>getBackground\<close> do not: on well-formed values (\<open>1 1 0\<close> for \<open>flex\<close>,
  \<open>red url(a.png)\<close> for \<open>background\<close>) they throw a TypeError, because they call members the
  class does not have.
\<close>

theorem getFlex_getBackground_abort:
  "getFlex theClass ''flex'' ''1 1 0'' imp = Inl TypeError
   \<and> getBackground theClass ''background'' ''red url(a.png)'' imp = Inl TypeError"
  by code_simp

subsection \<open>The two methods on a receiver that has the members\<close>

text \<open>There \<open>flex\<close> does what claim C3 says for \<open>none\<close> and \<open>abc\<close>.\<close>

lemma getFlex_patched:
  "getFlex patchedClass name ''none'' imp =
     Inr (Some [(''flex-grow'', entry imp (Str ''0'')),
                (''flex-shrink'', entry imp (Str ''0'')),
                (''flex-basis'', entry imp (Str ''auto''))])
   \<and> getFlex patchedClass name ''abc'' imp = Inr (Some [])"
  by code_simp

text \<open>
  And there \<open>background\<close> with a color alone writes four entries, three of them for missing
  tokens (with the value \<open>''\<close>), which claim C5 excludes.
\<close>

lemma getBackground_patched:
  "getBackground patchedClass name ''#fff'' imp =
     Inr (Some [(''background-color'', entry imp (Str ''#fff'')),
                (''background-repeat'', entry imp (Str [])),
                (''background-attachment'', entry imp (Str [])),
                (''background-position'', entry imp (Str []))])"
  by code_simp

subsection \<open>hsl colors with trailing text\<close>

lemma matches_matchesPrefix: "matches r p \<Longrightarrow> matchesPrefix r (p @ s)"
proof (induction p arbitrary: r)
  case Nil
  then show ?case by (cases s) simp_all
next
  case (Cons c p)
  then show ?case by simp
qed

text \<open>
  Claim C10: the color recognizer accepts every string that begins with a well-formed
  \<open>hsl(...)\<close> or \<open>hsla(...)\<close> shape, whatever follows the closing parenthesis, and returns
  the whole input unchanged. A well-formed shape is a string \<open>p\<close> that matches the \<open>hsl\<close>
  alternative of \<open>COLOR_REGEXP\<close>.
\<close>

theorem getColor_hsl_trailing:
  "matches COLOR_HSL p \<Longrightarrow> getColor (p @ s) = Some (p @ s)"
  by (simp add: getColor_def COLOR_REGEXP_test_def matches_matchesPrefix)

theorem getColor_hsl_trailing_witness:
  "matches COLOR_HSL ''hsl(0, 0%, 0%)''
   \<and> getColor ''hsl(0, 0%, 0%) trailing junk'' = Some ''hsl(0, 0%, 0%) trailing junk''"
proof -
  have m: "matches COLOR_HSL ''hsl(0, 0%, 0%)''"
    by code_simp
  from getColor_hsl_trailing [OF m, of "'' trailing junk''"] m show ?thesis
    by simp
qed

text \<open>The other alternatives are anchored at the end: trailing text makes them fail.\<close>

lemma getColor_anchored:
  "getColor ''rgb(0, 0, 0) trailing junk'' = None"
  "getColor ''rgba(0, 0, 0, 1) trailing junk'' = None"
  "getColor ''#fff trailing junk'' = None"
  by code_simp+

subsection \<open>The matcher decides membership\<close>

lemma nullable_lang: "nullable r = ([] \<in> lang r)"
  by (induction r) (auto intro: star_empty)

lemma star_head:
  assumes "x \<in> star A" and "x = c # s"
  shows "\<exists>u v. s = u @ v \<and> c # u \<in> A \<and> v \<in> star A"
  using assms
proof (induction arbitrary: s rule: star.induct)
  case star_empty
  then show ?case by simp
next
  case (star_more u v)
  show ?case
  proof (cases u)
    case Nil
    with star_more show ?thesis by simp
  next
    case (Cons d u')
    with star_more.prems have "d = c" and "s = u' @ v" by simp_all
    with Cons star_more.hyps show ?thesis by blast
  qed
qed

lemma star_cons: "(c # s \<in> star A) = (\<exists>u v. s = u @ v \<and> c # u \<in> A \<and> v \<in> star A)"
proof
  assume "c # s \<in> star A"
  then show "\<exists>u v. s = u @ v \<and> c # u \<in> A \<and> v \<in> star A"
    by (rule star_head) simp
next
  assume "\<exists>u v. s = u @ v \<and> c # u \<in> A \<and> v \<in> star A"
  then obtain u v where "s = u @ v" "c # u \<in> A" "v \<in> star A" by blast
  then show "c # s \<in> star A"
    using star_more [of "c # u" A v] by simp
qed

lemma deriv_lang: "(s \<in> lang (deriv c r)) = (c # s \<in> lang r)"
proof (induction r arbitrary: s)
  case (Then a b)
  show ?case
  proof (cases "nullable a")
    case True
    then have e: "[] \<in> lang a" by (simp add: nullable_lang)
    show ?thesis
    proof
      assume "s \<in> lang (deriv c (Then a b))"
      with True have "(\<exists>u v. s = u @ v \<and> u \<in> lang (deriv c a) \<and> v \<in> lang b) \<or> s \<in> lang (deriv c b)"
        by auto
      then show "c # s \<in> lang (Then a b)"
      proof
        assume "\<exists>u v. s = u @ v \<and> u \<in> lang (deriv c a) \<and> v \<in> lang b"
        then obtain u v where "s = u @ v" "c # u \<in> lang a" "v \<in> lang b"
          using Then.IH(1) by blast
        then have "c # s = (c # u) @ v \<and> c # u \<in> lang a \<and> v \<in> lang b" by simp
        then show ?thesis by (simp only: lang.simps) blast
      next
        assume "s \<in> lang (deriv c b)"
        then have "c # s \<in> lang b" using Then.IH(2) by blast
        with e have "c # s = [] @ (c # s) \<and> [] \<in> lang a \<and> c # s \<in> lang b" by simp
        then show ?thesis by (simp only: lang.simps) blast
      qed
    next
      assume "c # s \<in> lang (Then a b)"
      then obtain u v where uv: "c # s = u @ v" "u \<in> lang a" "v \<in> lang b" by auto
      show "s \<in> lang (deriv c (Then a b))"
      proof (cases u)
        case Nil
        with uv have "s \<in> lang (deriv c b)" using Then.IH(2) by simp
        with True show ?thesis by simp
      next
        case (Cons d u')
        with uv have "s = u' @ v" "u' \<in> lang (deriv c a)" using Then.IH(1) by simp_all
        with uv True show ?thesis by auto
      qed
    qed
  next
    case False
    then have e: "[] \<notin> lang a" by (simp add: nullable_lang)
    show ?thesis
    proof
      assume "s \<in> lang (deriv c (Then a b))"
      with False obtain u v where "s = u @ v" "c # u \<in> lang a" "v \<in> lang b"
        using Then.IH(1) by auto
      then have "c # s = (c # u) @ v \<and> c # u \<in> lang a \<and> v \<in> lang b" by simp
      then show "c # s \<in> lang (Then a b)" by (simp only: lang.simps) blast
    next
      assume "c # s \<in> lang (Then a b)"
      then obtain u v where uv: "c # s = u @ v" "u \<in> lang a" "v \<in> lang b" by auto
      with e obtain u' where "u = c # u'" by (cases u) auto
      with uv have "s = u' @ v" "u' \<in> lang (deriv c a)" using Then.IH(1) by simp_all
      with uv False show "s \<in> lang (deriv c (Then a b))" by auto
    qed
  qed
next
  case (Many a)
  show ?case
    by (simp add: star_cons Many.IH)
qed auto

lemma matches_lang: "matches r s = (s \<in> lang r)"
  by (induction s arbitrary: r) (simp_all add: nullable_lang deriv_lang)

subsection \<open>Quoted URL tokens\<close>

lemma backslash_not_special: "backslash \<notin> set urlSpecials"
  by code_simp

lemma urlScan_drop: "urlScan url i = hasNoUnescapedSpecial (drop i url)"
proof (induction url i rule: urlScan.induct)
  case (1 url i)
  show ?case
  proof (cases "i < length url")
    case False
    then show ?thesis by (simp add: urlScan.simps [of url i])
  next
    case True
    then have d: "drop i url = url ! i # drop (i + 1) url"
      by (simp add: Cons_nth_drop_Suc)
    show ?thesis
    proof (cases "url ! i \<in> set urlSpecials")
      case s: True
      with True d backslash_not_special show ?thesis
        by (auto simp: urlScan.simps [of url i])
    next
      case s: False
      show ?thesis
      proof (cases "url ! i = backslash")
        case b: True
        have "urlScan url i = urlScan url (i + 1 + 1)"
          using True s b by (simp add: urlScan.simps [of url i])
        also have "\<dots> = hasNoUnescapedSpecial (drop (i + 1 + 1) url)"
          using "1.IH"(1) True s b by simp
        also have "\<dots> = hasNoUnescapedSpecial (drop i url)"
          using d b by (simp add: drop_Suc tl_drop)
        finally show ?thesis .
      next
        case b: False
        have "urlScan url i = urlScan url (i + 1)"
          using True s b by (simp add: urlScan.simps [of url i])
        also have "\<dots> = hasNoUnescapedSpecial (drop (i + 1) url)"
          using "1.IH"(2) True s b by simp
        also have "\<dots> = hasNoUnescapedSpecial (drop i url)"
          using d b s by simp
        finally show ?thesis .
      qed
    qed
  qed
qed

lemma many_noneOf: "c \<notin> set mid \<Longrightarrow> mid \<in> lang (Many (NoneOf [c]))"
proof (induction mid)
  case Nil
  then show ?case by (simp add: star_empty)
next
  case (Cons d mid)
  then have "[d] \<in> lang (NoneOf [c])" and "mid \<in> star (lang (NoneOf [c]))" by auto
  then have "[d] @ mid \<in> star (lang (NoneOf [c]))" by (rule star_more)
  then show ?case by simp
qed

lemma lang_ThenI: "u \<in> lang a \<Longrightarrow> v \<in> lang b \<Longrightarrow> u @ v \<in> lang (Then a b)"
  by auto

lemma lang_Word: "w \<in> lang (Word w)"
  by (induction w) (simp_all add: Lit_def)

lemma URL_REGEXP_matches:
  assumes "CHR '')'' \<notin> set mid"
  shows "matches URL_REGEXP (''url('' @ mid @ '')'')"
proof -
  have m: "mid \<in> lang (Many (NoneOf '')''))"
    using assms by (rule many_noneOf)
  have e: "[] \<in> lang (Many (OneOf whitespace))"
    by (simp add: star_empty)
  have l: "'')'' \<in> lang (Seq [Lit (CHR '')'')])"
    by (simp add: Lit_def)
  have "''url('' @ ([] @ (mid @ ([] @ '')''))) \<in> lang URL_REGEXP"
    unfolding URL_REGEXP_def Seq.simps
    by (intro lang_ThenI lang_Word e m l [unfolded Seq.simps])
  then show ?thesis
    by (simp add: matches_lang)
qed

lemma URL_REGEXP_exec_form:
  assumes "CHR '')'' \<notin> set mid"
  shows "URL_REGEXP_exec (''url('' @ mid @ '')'') = Some (dropWhile isSpace mid)"
  using URL_REGEXP_matches [OF assms] by (simp add: URL_REGEXP_exec_def butlast_append)

lemma quote_not_space: "\<not> isSpace dquote" "\<not> isSpace squote"
  by code_simp+

lemma lower_u: "lowerChar (CHR ''u'') = CHR ''u''"
  by code_simp

lemma getURL_of_exec:
  assumes "v \<noteq> []" and "toLowerCase v \<noteq> ''none''" and "toLowerCase v \<noteq> ''inherit''"
    and ex: "URL_REGEXP_exec v = Some (q # body @ [q'])"
    and q: "q = dquote \<or> q = squote"
  shows "getURL v = (if q' \<noteq> q then None else if urlScan body 0 then Some v else None)"
proof -
  let ?url = "q # body @ [q']"
  have c0: "charAt ?url 0 = Some q"
    by (simp add: charAt_def)
  have "?url ! Suc (length body) = q'"
    by (simp add: nth_append)
  moreover have "nat (int (length ?url) - 1) = Suc (length body)"
    by simp
  ultimately have cl: "charAt ?url (int (length ?url) - 1) = Some q'"
    unfolding charAt_def by (simp del: of_nat_Suc)
  have sub: "substring ?url 1 (int (length ?url) - 1) = body"
    by (simp add: substring_def Let_def)
  have quoted: "charAt ?url 0 = Some dquote \<or> charAt ?url 0 = Some squote"
    using q c0 by auto
  have "getURL v =
          (if charAt ?url 0 \<noteq> charAt ?url (int (length ?url) - 1) then None
           else if urlScan (substring ?url 1 (int (length ?url) - 1)) 0 then Some v else None)"
    using assms(1-3) quoted by (simp only: getURL_def ex Let_def option.case if_False if_True simp_thms)
  then show ?thesis
    unfolding c0 cl sub by auto
qed

text \<open>
  What \<open>getURL\<close> does on a quoted token, in terms of the token that \<open>URL_REGEXP\<close> captures:
  the input is \<open>url(\<close>, white space \<open>ws\<close>, a quote \<open>q\<close>, the text \<open>body\<close>, a last character
  \<open>q'\<close> and \<open>)\<close>, with no \<open>)\<close> before the final one. The captured token is \<open>q body q'\<close>:
  \<open>getURL\<close> rejects when \<open>q'\<close> is not the quote \<open>q\<close>, and otherwise scans \<open>body\<close> as the
  specification words it and returns the input unchanged when the scan passes.
\<close>

lemma getURL_captured_token:
  assumes ws: "\<forall>c \<in> set ws. isSpace c"
    and q: "q = dquote \<or> q = squote"
    and body: "CHR '')'' \<notin> set body"
    and q': "q' \<noteq> CHR '')''"
  shows "getURL (''url('' @ ws @ q # body @ [q'] @ '')'') =
           (if q' \<noteq> q then None
            else if hasNoUnescapedSpecial body
                 then Some (''url('' @ ws @ q # body @ [q'] @ '')'')
                 else None)"
proof -
  define mid where "mid = ws @ q # body @ [q']"
  define v where "v = ''url('' @ mid @ '')''"
  have nq: "\<not> isSpace q" using q quote_not_space by auto
  have qp: "q \<noteq> CHR '')''" using q by (auto simp: dquote_def squote_def)
  have "\<not> isSpace (CHR '')'')"
    by code_simp
  with ws have "CHR '')'' \<notin> set ws"
    by blast
  with body q' qp have "CHR '')'' \<notin> set mid"
    by (simp add: mid_def)
  then have "URL_REGEXP_exec v = Some (dropWhile isSpace mid)"
    unfolding v_def by (rule URL_REGEXP_exec_form)
  moreover have "dropWhile isSpace mid = q # body @ [q']"
    using ws nq by (simp add: mid_def dropWhile_append)
  ultimately have ex: "URL_REGEXP_exec v = Some (q # body @ [q'])" by simp
  have low: "v \<noteq> []" "toLowerCase v \<noteq> ''none''" "toLowerCase v \<noteq> ''inherit''"
    by (simp_all add: v_def toLowerCase_def lower_u)
  have "getURL v = (if q' \<noteq> q then None else if urlScan body 0 then Some v else None)"
    using low ex q by (rule getURL_of_exec)
  then have "getURL v = (if q' \<noteq> q then None else if hasNoUnescapedSpecial body then Some v else None)"
    by (simp only: urlScan_drop drop_0)
  moreover have "v = ''url('' @ ws @ q # body @ [q'] @ '')''"
    by (simp add: v_def mid_def)
  ultimately show ?thesis by simp
qed

lemma getURL_captured_token_examples:
  "getURL (''url('' @ [dquote] @ ''a b.png'' @ [dquote] @ '')'') = None
   \<and> getURL (''url('' @ [dquote] @ ''a'' @ [backslash] @ '' b.png'' @ [dquote] @ '')'')
       = Some (''url('' @ [dquote] @ ''a'' @ [backslash] @ '' b.png'' @ [dquote] @ '')'')
   \<and> getURL (''url( '' @ [dquote] @ ''a.png'' @ [squote] @ '')'') = None"
proof -
  have b1: "CHR '')'' \<notin> set ''a b.png''" and n1: "\<not> hasNoUnescapedSpecial ''a b.png''"
    by code_simp+
  have b2: "CHR '')'' \<notin> set (''a'' @ [backslash] @ '' b.png'')"
    and n2: "hasNoUnescapedSpecial (''a'' @ [backslash] @ '' b.png'')"
    by code_simp+
  have b3: "CHR '')'' \<notin> set ''a.png''" and w3: "\<forall>c \<in> set '' ''. isSpace c"
    by code_simp+
  have q: "dquote \<noteq> CHR '')''" "squote \<noteq> CHR '')''" "squote \<noteq> dquote"
    by code_simp+
  have "getURL (''url('' @ [] @ dquote # ''a b.png'' @ [dquote] @ '')'') = None"
    using getURL_captured_token [of "[]" dquote "''a b.png''" dquote] b1 n1 q by simp
  moreover have "getURL (''url('' @ [] @ dquote # (''a'' @ [backslash] @ '' b.png'') @ [dquote] @ '')'')
       = Some (''url('' @ [] @ dquote # (''a'' @ [backslash] @ '' b.png'') @ [dquote] @ '')'')"
    using getURL_captured_token [of "[]" dquote "''a'' @ [backslash] @ '' b.png''" dquote] b2 n2 q by simp
  moreover have "getURL (''url('' @ '' '' @ dquote # ''a.png'' @ [squote] @ '')'') = None"
    using getURL_captured_token [of "'' ''" dquote "''a.png''" squote] b3 w3 q by simp
  ultimately show ?thesis by simp
qed

text \<open>
  Claim C8: for an input \<open>url( <token> )\<close> whose token is quoted, \<open>getURL\<close> rejects when the
  opening and the closing quote differ; otherwise it strips the quotes and scans the rest,
  rejecting on an unescaped \<open>( ) space tab newline ' "\<close> (a backslash escapes the character
  after it), and on acceptance returns the input unchanged. With white space between the
  closing quote and \<open>)\<close> the code does not do this: the group \<open>[^)]*\<close> of \<open>URL_REGEXP\<close>
  takes that white space into the token, whose last character is then a space and not the
  quote, and \<open>getURL\<close> rejects a token whose quotes match and whose text is clean. The
  same token with white space before it only, or with none, is accepted.
\<close>

theorem getURL_space_after_closing_quote:
  "getURL (''url( '' @ [dquote] @ ''a.png'' @ [dquote] @ '' )'') = None
   \<and> getURL (''url( '' @ [dquote] @ ''a.png'' @ [dquote] @ '')'')
       = Some (''url( '' @ [dquote] @ ''a.png'' @ [dquote] @ '')'')
   \<and> getURL (''url('' @ [dquote] @ ''a.png'' @ [dquote] @ '')'')
       = Some (''url('' @ [dquote] @ ''a.png'' @ [dquote] @ '')'')"
  by code_simp

text \<open>
  A value with a \<open>)\<close> inside the token, escaped or not, does not match \<open>URL_REGEXP\<close> at
  all and is rejected before the scan.
\<close>

lemma getURL_escaped_paren:
  "getURL (''url('' @ [dquote] @ ''a'' @ [backslash] @ '').png'' @ [dquote] @ '')'') = None"
  by code_simp

subsection \<open>Hex colors of every length\<close>

lemma matchesPrefix_lang: "matchesPrefix r s = (\<exists>u v. s = u @ v \<and> u \<in> lang r)"
proof (induction s arbitrary: r)
  case Nil
  then show ?case by (simp add: nullable_lang)
next
  case (Cons c s)
  show ?case
  proof (cases "nullable r")
    case True
    then have "[] \<in> lang r" by (simp add: nullable_lang)
    then have "c # s = [] @ (c # s) \<and> [] \<in> lang r" by simp
    then have "\<exists>u v. c # s = u @ v \<and> u \<in> lang r" by blast
    with True show ?thesis by simp
  next
    case False
    then have n: "[] \<notin> lang r" by (simp add: nullable_lang)
    have "(\<exists>u v. c # s = u @ v \<and> u \<in> lang r) = (\<exists>u v. s = u @ v \<and> c # u \<in> lang r)"
    proof
      assume "\<exists>u v. c # s = u @ v \<and> u \<in> lang r"
      then obtain u v where uv: "c # s = u @ v" "u \<in> lang r" by blast
      with n obtain u' where "u = c # u'" by (cases u) auto
      with uv show "\<exists>u v. s = u @ v \<and> c # u \<in> lang r" by auto
    next
      assume "\<exists>u v. s = u @ v \<and> c # u \<in> lang r"
      then obtain u v where "s = u @ v" "c # u \<in> lang r" by blast
      then have "c # s = (c # u) @ v \<and> c # u \<in> lang r" by simp
      then show "\<exists>u v. c # s = u @ v \<and> u \<in> lang r" by blast
    qed
    with False Cons.IH [of "deriv c r"] show ?thesis by (simp add: deriv_lang)
  qed
qed

lemma hex_group_lang:
  assumes "set ds \<subseteq> set hexDigits"
  shows "(ds \<in> lang HEX_GROUP) = (length ds = 3 \<or> length ds = 4)"
proof
  assume "ds \<in> lang HEX_GROUP"
  then show "length ds = 3 \<or> length ds = 4"
    by (auto simp: HEX_GROUP_def Opt_def)
next
  assume "length ds = 3 \<or> length ds = 4"
  then show "ds \<in> lang HEX_GROUP"
  proof
    assume "length ds = 3"
    then obtain a b c where ds: "ds = [a, b, c]"
      by (auto simp: numeral_3_eq_3 length_Suc_conv)
    with assms have h: "[a] \<in> lang (OneOf hexDigits)" "[b] \<in> lang (OneOf hexDigits)"
      "[c] \<in> lang (OneOf hexDigits)"
      by simp_all
    have "[a] @ [b] @ [c] @ [] @ [] \<in> lang HEX_GROUP"
      unfolding HEX_GROUP_def Seq.simps Opt_def
      by (intro lang_ThenI h) simp_all
    with ds show ?thesis by simp
  next
    assume "length ds = 4"
    then obtain a b c d where ds: "ds = [a, b, c, d]"
      by (auto simp: numeral_eq_Suc length_Suc_conv)
    with assms have h: "[a] \<in> lang (OneOf hexDigits)" "[b] \<in> lang (OneOf hexDigits)"
      "[c] \<in> lang (OneOf hexDigits)" "[d] \<in> lang (OneOf hexDigits)"
      by simp_all
    from ds assms have "d \<in> set hexDigits"
      by simp
    then have "[a] @ [b] @ [c] @ [d] @ [] \<in> lang HEX_GROUP"
      unfolding HEX_GROUP_def Seq.simps Opt_def
      by (intro lang_ThenI h) simp_all
    with ds show ?thesis by simp
  qed
qed

lemma color_hex_lang:
  assumes "set ds \<subseteq> set hexDigits"
  shows "(CHR ''#'' # ds \<in> lang COLOR_HEX) = (length ds \<in> {3, 4, 6, 7, 8})"
proof -
  have split: "(CHR ''#'' # ds \<in> lang COLOR_HEX) =
      (\<exists>u v. ds = u @ v \<and> u \<in> lang HEX_GROUP \<and> (v \<in> lang HEX_GROUP \<or> v = []))"
    by (auto simp: COLOR_HEX_def Opt_def Lit_def Cons_eq_append_conv)
  show ?thesis
  proof
    assume "CHR ''#'' # ds \<in> lang COLOR_HEX"
    then obtain u v where uv: "ds = u @ v" "u \<in> lang HEX_GROUP" "v \<in> lang HEX_GROUP \<or> v = []"
      unfolding split by blast
    from uv assms have "set u \<subseteq> set hexDigits" "set v \<subseteq> set hexDigits" by auto
    with uv have "length u = 3 \<or> length u = 4" "length v = 3 \<or> length v = 4 \<or> length v = 0"
      by (auto simp: hex_group_lang)
    with uv(1) show "length ds \<in> {3, 4, 6, 7, 8}" by auto
  next
    assume l: "length ds \<in> {3, 4, 6, 7, 8}"
    define n where "n = (if length ds = 8 \<or> length ds = 4 then 4 else 3::nat)"
    have sub: "set (take n ds) \<subseteq> set hexDigits" "set (drop n ds) \<subseteq> set hexDigits"
      using assms by (auto dest: in_set_takeD in_set_dropD)
    have "length (take n ds) = 3 \<or> length (take n ds) = 4"
      using l by (auto simp: n_def)
    then have u: "take n ds \<in> lang HEX_GROUP"
      using sub by (simp add: hex_group_lang)
    have "length (drop n ds) = 3 \<or> length (drop n ds) = 4 \<or> drop n ds = []"
      using l by (auto simp: n_def)
    then have v: "drop n ds \<in> lang HEX_GROUP \<or> drop n ds = []"
      using sub by (auto simp: hex_group_lang)
    have "ds = take n ds @ drop n ds" by simp
    with u v show "CHR ''#'' # ds \<in> lang COLOR_HEX"
      unfolding split by blast
  qed
qed

lemma hash_not_rgb: "CHR ''#'' # ds \<notin> lang COLOR_RGB" "CHR ''#'' # ds \<notin> lang COLOR_RGBA"
  by (auto simp: COLOR_RGB_def COLOR_RGBA_def Lit_def)

lemma hsl_starts_with_h: "u \<in> lang COLOR_HSL \<Longrightarrow> \<exists>t. u = CHR ''h'' # t"
  by (auto simp: COLOR_HSL_def Lit_def)

lemma hash_not_hsl: "\<not> matchesPrefix COLOR_HSL (CHR ''#'' # ds)"
proof
  assume "matchesPrefix COLOR_HSL (CHR ''#'' # ds)"
  then obtain u v where uv: "CHR ''#'' # ds = u @ v" "u \<in> lang COLOR_HSL"
    unfolding matchesPrefix_lang by blast
  from uv(2) obtain t where "u = CHR ''h'' # t"
    using hsl_starts_with_h by blast
  with uv(1) show False by simp
qed

text \<open>
  What \<open>getColor\<close> does on a \<open>#\<close> followed by hexadecimal digits only: it accepts 3, 4, 6,
  7 and 8 digits, and nothing else.
\<close>

lemma getColor_hex_digits:
  assumes "set ds \<subseteq> set hexDigits"
  shows "getColor (CHR ''#'' # ds) =
           (if length ds \<in> {3, 4, 6, 7, 8} then Some (CHR ''#'' # ds) else None)"
  using color_hex_lang [OF assms] hash_not_rgb [of ds] hash_not_hsl [of ds]
  by (simp add: getColor_def COLOR_REGEXP_test_def matches_lang del: matches.simps)

subsection \<open>Idempotence of the recognizers\<close>

lemma getLength_idem: "getLength v = Some r \<Longrightarrow> getLength r = Some r"
proof -
  assume a: "getLength v = Some r"
  have z: "getLength ''0px'' = Some ''0px''" by code_simp
  show ?thesis
  proof (cases "v = ''0''")
    case True
    with a have "r = ''0px''" by (simp add: getLength_def)
    with z show ?thesis by simp
  next
    case False
    with a have "r = v" by (simp add: getLength_def split: if_splits)
    with a show ?thesis by simp
  qed
qed

lemma getPercentage_idem: "getPercentage v = Some r \<Longrightarrow> getPercentage r = Some r"
proof -
  assume a: "getPercentage v = Some r"
  have z: "getPercentage ''0%'' = Some ''0%''" by code_simp
  show ?thesis
  proof (cases "v = ''0''")
    case True
    with a have "r = ''0%''" by (simp add: getPercentage_def)
    with z show ?thesis by simp
  next
    case False
    with a have "r = v" by (simp add: getPercentage_def split: if_splits)
    with a show ?thesis by simp
  qed
qed

lemma getMeasurement_shape:
  assumes "getMeasurement v = Some r"
  shows "r \<in> {''inherit'', ''initial'', ''revert'', ''unset'', ''0px''} \<or> r = v"
proof (cases "toLowerCase v \<in> {''inherit'', ''initial'', ''revert'', ''unset''}")
  case True
  with assms show ?thesis by (auto simp: getMeasurement_def Let_def)
next
  case False
  with assms have o: "orElse (getLength v) (getPercentage v) = Some r"
    by (auto simp: getMeasurement_def Let_def)
  show ?thesis
  proof (cases "v = ''0''")
    case True
    with o show ?thesis by (simp add: orElse_def getLength_def)
  next
    case False
    with o show ?thesis
      by (auto simp: orElse_def getLength_def getPercentage_def split: if_splits option.splits)
  qed
qed

lemma getMeasurement_idem:
  assumes "getMeasurement v = Some r"
  shows "getMeasurement r = Some r"
proof -
  have k: "getMeasurement ''inherit'' = Some ''inherit''" "getMeasurement ''initial'' = Some ''initial''"
    "getMeasurement ''revert'' = Some ''revert''" "getMeasurement ''unset'' = Some ''unset''"
    "getMeasurement ''0px'' = Some ''0px''"
    by code_simp+
  from getMeasurement_shape [OF assms] k assms show ?thesis by auto
qed

lemma getMeasurementOrAuto_idem:
  assumes "getMeasurementOrAuto v = Some r"
  shows "getMeasurementOrAuto r = Some r"
proof (cases "toLowerCase v = ''auto''")
  case True
  have "getMeasurementOrAuto ''auto'' = Some ''auto''" by code_simp
  with True assms show ?thesis by (simp add: getMeasurementOrAuto_def)
next
  case False
  with assms have m: "getMeasurement v = Some r" by (simp add: getMeasurementOrAuto_def)
  have k: "getMeasurementOrAuto ''inherit'' = Some ''inherit''" "getMeasurementOrAuto ''initial'' = Some ''initial''"
    "getMeasurementOrAuto ''revert'' = Some ''revert''" "getMeasurementOrAuto ''unset'' = Some ''unset''"
    "getMeasurementOrAuto ''0px'' = Some ''0px''"
    by code_simp+
  from getMeasurement_shape [OF m] k assms show ?thesis by auto
qed

lemma getInteger_idem: "getInteger v = Some r \<Longrightarrow> getInteger r = Some r"
  by (auto simp: getInteger_def split: if_splits)

lemma getColor_idem: "getColor v = Some r \<Longrightarrow> getColor r = Some r"
  by (auto simp: getColor_def split: if_splits)

lemma getURL_idem:
  assumes "getURL v = Some r"
  shows "getURL r = Some r"
proof (cases "toLowerCase v = ''none'' \<or> toLowerCase v = ''inherit''")
  case True
  have k: "getURL ''none'' = Some ''none''" "getURL ''inherit'' = Some ''inherit''" by code_simp+
  from True assms have "r = ''none'' \<or> r = ''inherit''"
    by (auto simp: getURL_def Let_def split: if_splits)
  with k show ?thesis by auto
next
  case False
  with assms have "r = v"
    by (auto simp: getURL_def Let_def split: if_splits option.splits)
  with assms show ?thesis by simp
qed

text \<open>
  Claim C9: for each of the recognizers length, percentage, measurement, measurementOrAuto,
  integer, color and url, and every input \<open>v\<close> it accepts with result \<open>r\<close>, the recognizer
  accepts \<open>r\<close> with the same result \<open>r\<close>.
\<close>

theorem recognizers_idempotent:
  "(getLength v = Some r \<longrightarrow> getLength r = Some r)
   \<and> (getPercentage v = Some r \<longrightarrow> getPercentage r = Some r)
   \<and> (getMeasurement v = Some r \<longrightarrow> getMeasurement r = Some r)
   \<and> (getMeasurementOrAuto v = Some r \<longrightarrow> getMeasurementOrAuto r = Some r)
   \<and> (getInteger v = Some r \<longrightarrow> getInteger r = Some r)
   \<and> (getColor v = Some r \<longrightarrow> getColor r = Some r)
   \<and> (getURL v = Some r \<longrightarrow> getURL r = Some r)"
  using getLength_idem getPercentage_idem getMeasurement_idem getMeasurementOrAuto_idem
    getInteger_idem getColor_idem getURL_idem
  by blast

theorem recognizers_idempotent_witness:
  "getLength ''0'' = Some ''0px'' \<and> getLength ''0px'' = Some ''0px''
   \<and> getPercentage ''0'' = Some ''0%'' \<and> getPercentage ''0%'' = Some ''0%''
   \<and> getMeasurement ''INHERIT'' = Some ''inherit'' \<and> getMeasurement ''inherit'' = Some ''inherit''
   \<and> getMeasurementOrAuto ''AUTO'' = Some ''auto''
   \<and> getMeasurementOrAuto ''auto'' = Some ''auto''
   \<and> getInteger ''12px'' = Some ''12px''
   \<and> getColor ''#fff'' = Some ''#fff''
   \<and> getURL ''NONE'' = Some ''none'' \<and> getURL ''none'' = Some ''none''"
proof -
  have h: "getLength ''0'' = Some ''0px''" "getPercentage ''0'' = Some ''0%''"
    "getMeasurement ''INHERIT'' = Some ''inherit''"
    "getMeasurementOrAuto ''AUTO'' = Some ''auto''"
    "getInteger ''12px'' = Some ''12px''" "getColor ''#fff'' = Some ''#fff''"
    "getURL ''NONE'' = Some ''none''"
    by code_simp+
  from h recognizers_idempotent [of "''0''" "''0px''"]
  have "getLength ''0px'' = Some ''0px''" by blast
  moreover from h recognizers_idempotent [of "''0''" "''0%''"]
  have "getPercentage ''0%'' = Some ''0%''" by blast
  moreover from h recognizers_idempotent [of "''INHERIT''" "''inherit''"]
  have "getMeasurement ''inherit'' = Some ''inherit''" by blast
  moreover from h recognizers_idempotent [of "''AUTO''" "''auto''"]
  have "getMeasurementOrAuto ''auto'' = Some ''auto''" by blast
  moreover from h recognizers_idempotent [of "''NONE''" "''none''"]
  have "getURL ''none'' = Some ''none''" by blast
  ultimately show ?thesis using h by simp
qed

subsection \<open>border\<close>

text \<open>
  \<open>getBorder\<close> on \<open>1px\<close> succeeds with the four width entries although the style and the
  color are missing, and on \<open>1px solid #fff\<close> it returns eight entries, none of them a
  \<open>border-*-color\<close>: the color is written under the \<open>border-*-style\<close> keys.
\<close>

theorem getBorder_counterexample:
  "getBorder ''1px'' False =
     Some [(''border-top-width'', \<lparr>val = Some ''1px'', important = False\<rparr>),
           (''border-right-width'', \<lparr>val = Some ''1px'', important = False\<rparr>),
           (''border-bottom-width'', \<lparr>val = Some ''1px'', important = False\<rparr>),
           (''border-left-width'', \<lparr>val = Some ''1px'', important = False\<rparr>)]
   \<and> getBorder ''1px solid #fff'' False =
     Some [(''border-top-width'', \<lparr>val = Some ''1px'', important = False\<rparr>),
           (''border-right-width'', \<lparr>val = Some ''1px'', important = False\<rparr>),
           (''border-bottom-width'', \<lparr>val = Some ''1px'', important = False\<rparr>),
           (''border-left-width'', \<lparr>val = Some ''1px'', important = False\<rparr>),
           (''border-top-style'', \<lparr>val = Some ''#fff'', important = False\<rparr>),
           (''border-right-style'', \<lparr>val = Some ''#fff'', important = False\<rparr>),
           (''border-bottom-style'', \<lparr>val = Some ''#fff'', important = False\<rparr>),
           (''border-left-style'', \<lparr>val = Some ''#fff'', important = False\<rparr>)]"
  by code_simp

lemma getBorderWidth_key:
  "getBorderWidth p imp = Some w \<Longrightarrow> \<exists>x. w = [(''border-width'', \<lparr>val = Some x, important = imp\<rparr>)]"
  by (auto simp: getBorderWidth_def Let_def truthy_def split: if_splits option.splits)

lemma getBorderStyle_key:
  "getBorderStyle p imp = Some s \<Longrightarrow> \<exists>x. s = [(''border-style'', \<lparr>val = Some x, important = imp\<rparr>)]"
  by (auto simp: getBorderStyle_def Let_def split: if_splits)

lemma slotOf_truthy:
  "truthyObject (slotOf parts i f) = (\<exists>p r. token parts i = Some p \<and> f p = Some r)"
  by (auto simp: slotOf_def split: option.splits)

lemma slotOf_not_Null:
  "(slotOf parts i f \<noteq> Null) = (\<forall>p. token parts i = Some p \<longrightarrow> f p \<noteq> None)"
  by (auto simp: slotOf_def split: option.splits)

lemma slotOf_Some: "token parts i = Some p \<Longrightarrow> f p = Some r \<Longrightarrow> slotOf parts i f = Result r"
  by (simp add: slotOf_def)

lemma slotOf_None: "token parts i = None \<Longrightarrow> slotOf parts i f = EmptyString"
  by (simp add: slotOf_def)

lemma getBorder_succeeds:
  "(getBorder v imp \<noteq> None) =
     ((\<exists>p. token (splitSpaces v) 0 = Some p \<and> getBorderWidth p imp \<noteq> None)
      \<and> (\<forall>p. token (splitSpaces v) 1 = Some p \<longrightarrow> getBorderStyle p imp \<noteq> None)
      \<and> (\<forall>p. token (splitSpaces v) 2 = Some p \<longrightarrow> getColor p \<noteq> None))"
  by (simp add: getBorder_def Let_def slotOf_truthy slotOf_not_Null)

lemma getBorder_width_only:
  assumes "token (splitSpaces v) 0 = Some p" and "getBorderWidth p imp = Some w"
    and "token (splitSpaces v) 1 = None" and "token (splitSpaces v) 2 = None"
  shows "getBorder v imp =
    Some [(''border-top-width'', entryOf w ''border-width''),
          (''border-right-width'', entryOf w ''border-width''),
          (''border-bottom-width'', entryOf w ''border-width''),
          (''border-left-width'', entryOf w ''border-width'')]"
  using assms by (simp add: getBorder_def Let_def slotOf_Some slotOf_None)

lemma getBorder_width_style:
  assumes "token (splitSpaces v) 0 = Some p" and "getBorderWidth p imp = Some w"
    and "token (splitSpaces v) 1 = Some p1" and "getBorderStyle p1 imp = Some s"
    and "token (splitSpaces v) 2 = None"
  shows "getBorder v imp =
    Some [(''border-top-width'', entryOf w ''border-width''),
          (''border-right-width'', entryOf w ''border-width''),
          (''border-bottom-width'', entryOf w ''border-width''),
          (''border-left-width'', entryOf w ''border-width''),
          (''border-top-style'', entryOf s ''border-style''),
          (''border-right-style'', entryOf s ''border-style''),
          (''border-bottom-style'', entryOf s ''border-style''),
          (''border-left-style'', entryOf s ''border-style'')]"
  using assms by (simp add: getBorder_def Let_def slotOf_Some slotOf_None)

lemma slotOf_cases:
  obtains (absent) "token parts i = None" and "slotOf parts i f = EmptyString"
  | (invalid) p where "token parts i = Some p" and "f p = None" and "slotOf parts i f = Null"
  | (valid) p r where "token parts i = Some p" and "f p = Some r"
      and "slotOf parts i f = Result r"
  by (cases "token parts i"; cases "f (the (token parts i))") (auto simp: slotOf_def)

lemma getBorder_width_entries:
  assumes g: "getBorder v imp = Some m" and "token (splitSpaces v) 0 = Some p"
    and "getBorderWidth p imp = Some [(''border-width'', e)]"
  shows "map_of m ''border-top-width'' = Some e \<and> map_of m ''border-right-width'' = Some e
         \<and> map_of m ''border-bottom-width'' = Some e \<and> map_of m ''border-left-width'' = Some e"
proof -
  have bw: "slotOf (splitSpaces v) 0 (\<lambda>p. getBorderWidth p imp) = Result [(''border-width'', e)]"
    using assms(2,3) by (simp add: slotOf_Some)
  show ?thesis
  proof (cases rule: slotOf_cases [of "splitSpaces v" 1 "\<lambda>p. getBorderStyle p imp"])
    case absent
    note bs = absent(2)
    show ?thesis
    proof (cases rule: slotOf_cases [of "splitSpaces v" 2 getColor])
      case absent
      with g show ?thesis
        unfolding getBorder_def Let_def bw bs absent(2) by (auto simp: entryOf_def)
    next
      case (invalid p)
      with g show ?thesis
        unfolding getBorder_def Let_def bw bs invalid(3) by (auto simp: entryOf_def)
    next
      case (valid p r)
      with g show ?thesis
        unfolding getBorder_def Let_def bw bs valid(3)
        by (auto simp: entryOf_def split: if_splits)
    qed
  next
    case (invalid p)
    with g show ?thesis
      unfolding getBorder_def Let_def bw invalid(3) by simp
  next
    case (valid p1 s)
    note bs = valid(3)
    show ?thesis
    proof (cases rule: slotOf_cases [of "splitSpaces v" 2 getColor])
      case absent
      with g show ?thesis
        unfolding getBorder_def Let_def bw bs absent(2) by (auto simp: entryOf_def)
    next
      case (invalid p)
      with g show ?thesis
        unfolding getBorder_def Let_def bw bs invalid(3) by (auto simp: entryOf_def)
    next
      case (valid p r)
      with g show ?thesis
        unfolding getBorder_def Let_def bw bs valid(3)
        by (auto simp: entryOf_def split: if_splits)
    qed
  qed
qed

lemma getBorder_style_entries:
  assumes g: "getBorder v imp = Some m" and "token (splitSpaces v) 1 = Some p"
    and "getBorderStyle p imp = Some [(''border-style'', e)]"
    and "token (splitSpaces v) 2 = None"
  shows "map_of m ''border-top-style'' = Some e \<and> map_of m ''border-right-style'' = Some e
         \<and> map_of m ''border-bottom-style'' = Some e \<and> map_of m ''border-left-style'' = Some e"
proof -
  have bs: "slotOf (splitSpaces v) 1 (\<lambda>p. getBorderStyle p imp) = Result [(''border-style'', e)]"
    using assms(2,3) by (simp add: slotOf_Some)
  have bc: "slotOf (splitSpaces v) 2 getColor = EmptyString"
    using assms(4) by (simp add: slotOf_None)
  show ?thesis
  proof (cases rule: slotOf_cases [of "splitSpaces v" 0 "\<lambda>p. getBorderWidth p imp"])
    case absent
    with g show ?thesis
      unfolding getBorder_def Let_def bs bc absent(2) by simp
  next
    case (invalid p)
    with g show ?thesis
      unfolding getBorder_def Let_def bs bc invalid(3) by simp
  next
    case (valid p r)
    with g show ?thesis
      unfolding getBorder_def Let_def bs bc valid(3) by (auto simp: entryOf_def)
  qed
qed

lemma getBorder_keys:
  assumes g: "getBorder v imp = Some m" and "token (splitSpaces v) 2 = None"
  shows "map fst m =
           [''border-top-width'', ''border-right-width'', ''border-bottom-width'',
            ''border-left-width'']
           @ (if token (splitSpaces v) 1 = None then []
              else [''border-top-style'', ''border-right-style'', ''border-bottom-style'',
                    ''border-left-style''])"
proof -
  have bc: "slotOf (splitSpaces v) 2 getColor = EmptyString"
    using assms(2) by (simp add: slotOf_None)
  show ?thesis
  proof (cases rule: slotOf_cases [of "splitSpaces v" 0 "\<lambda>p. getBorderWidth p imp"])
    case absent
    with g show ?thesis
      unfolding getBorder_def Let_def bc absent(2) by simp
  next
    case (invalid p)
    with g show ?thesis
      unfolding getBorder_def Let_def bc invalid(3) by simp
  next
    case (valid p0 w)
    note bw = valid(3)
    show ?thesis
    proof (cases rule: slotOf_cases [of "splitSpaces v" 1 "\<lambda>p. getBorderStyle p imp"])
      case absent
      with g show ?thesis
        unfolding getBorder_def Let_def bc bw absent(2) by auto
    next
      case (invalid p)
      with g show ?thesis
        unfolding getBorder_def Let_def bc bw invalid(3) by simp
    next
      case (valid p r)
      with g show ?thesis
        unfolding getBorder_def Let_def bc bw valid(3) by auto
    qed
  qed
qed

text \<open>
  Claim C1, amended: for the \<open>border\<close> shorthand on the space-separated tokens of its value
  (width, style, color, by position), the expansion succeeds exactly when the width token is
  present and valid and the style token and the color token are each missing or valid. On
  success the four \<open>border-*-width\<close> entries carry the resolved width; when the color token
  is missing, the four \<open>border-*-style\<close> entries carry the resolved style if the style token
  is present, and the result holds these entries and no other.
\<close>

theorem getBorder_amended:
  "(getBorder v imp \<noteq> None) =
     ((\<exists>p. token (splitSpaces v) 0 = Some p \<and> getBorderWidth p imp \<noteq> None)
      \<and> (\<forall>p. token (splitSpaces v) 1 = Some p \<longrightarrow> getBorderStyle p imp \<noteq> None)
      \<and> (\<forall>p. token (splitSpaces v) 2 = Some p \<longrightarrow> getColor p \<noteq> None))
   \<and> (\<forall>m p e. getBorder v imp = Some m \<and> token (splitSpaces v) 0 = Some p
          \<and> getBorderWidth p imp = Some [(''border-width'', e)] \<longrightarrow>
          map_of m ''border-top-width'' = Some e \<and> map_of m ''border-right-width'' = Some e
          \<and> map_of m ''border-bottom-width'' = Some e \<and> map_of m ''border-left-width'' = Some e)
   \<and> (\<forall>m p e. getBorder v imp = Some m \<and> token (splitSpaces v) 1 = Some p
          \<and> getBorderStyle p imp = Some [(''border-style'', e)]
          \<and> token (splitSpaces v) 2 = None \<longrightarrow>
          map_of m ''border-top-style'' = Some e \<and> map_of m ''border-right-style'' = Some e
          \<and> map_of m ''border-bottom-style'' = Some e \<and> map_of m ''border-left-style'' = Some e)
   \<and> (\<forall>m. getBorder v imp = Some m \<and> token (splitSpaces v) 2 = None \<longrightarrow>
          map fst m =
            [''border-top-width'', ''border-right-width'', ''border-bottom-width'',
             ''border-left-width'']
            @ (if token (splitSpaces v) 1 = None then []
               else [''border-top-style'', ''border-right-style'', ''border-bottom-style'',
                     ''border-left-style'']))"
proof (intro conjI allI impI)
  show "(getBorder v imp \<noteq> None) =
     ((\<exists>p. token (splitSpaces v) 0 = Some p \<and> getBorderWidth p imp \<noteq> None)
      \<and> (\<forall>p. token (splitSpaces v) 1 = Some p \<longrightarrow> getBorderStyle p imp \<noteq> None)
      \<and> (\<forall>p. token (splitSpaces v) 2 = Some p \<longrightarrow> getColor p \<noteq> None))"
    by (rule getBorder_succeeds)
next
  fix m p e
  assume a: "getBorder v imp = Some m \<and> token (splitSpaces v) 0 = Some p
          \<and> getBorderWidth p imp = Some [(''border-width'', e)]"
  from a have w: "map_of m ''border-top-width'' = Some e \<and> map_of m ''border-right-width'' = Some e
         \<and> map_of m ''border-bottom-width'' = Some e \<and> map_of m ''border-left-width'' = Some e"
    by (intro getBorder_width_entries [of v imp m p e]) simp_all
  from w show "map_of m ''border-top-width'' = Some e" by simp
  from w show "map_of m ''border-right-width'' = Some e" by simp
  from w show "map_of m ''border-bottom-width'' = Some e" by simp
  from w show "map_of m ''border-left-width'' = Some e" by simp
next
  fix m p e
  assume a: "getBorder v imp = Some m \<and> token (splitSpaces v) 1 = Some p
          \<and> getBorderStyle p imp = Some [(''border-style'', e)]
          \<and> token (splitSpaces v) 2 = None"
  from a have s: "map_of m ''border-top-style'' = Some e \<and> map_of m ''border-right-style'' = Some e
         \<and> map_of m ''border-bottom-style'' = Some e \<and> map_of m ''border-left-style'' = Some e"
    by (intro getBorder_style_entries [of v imp m p e]) simp_all
  from s show "map_of m ''border-top-style'' = Some e" by simp
  from s show "map_of m ''border-right-style'' = Some e" by simp
  from s show "map_of m ''border-bottom-style'' = Some e" by simp
  from s show "map_of m ''border-left-style'' = Some e" by simp
next
  fix m
  assume "getBorder v imp = Some m \<and> token (splitSpaces v) 2 = None"
  then show "map fst m =
            [''border-top-width'', ''border-right-width'', ''border-bottom-width'',
             ''border-left-width'']
            @ (if token (splitSpaces v) 1 = None then []
               else [''border-top-style'', ''border-right-style'', ''border-bottom-style'',
                     ''border-left-style''])"
    using getBorder_keys [of v imp m] by blast
qed

theorem getBorder_amended_witness:
  "\<exists>m. getBorder ''1px solid'' True = Some m
     \<and> map_of m ''border-top-width'' = Some \<lparr>val = Some ''1px'', important = True\<rparr>
     \<and> map_of m ''border-left-width'' = Some \<lparr>val = Some ''1px'', important = True\<rparr>
     \<and> map_of m ''border-top-style'' = Some \<lparr>val = Some ''solid'', important = True\<rparr>
     \<and> map_of m ''border-left-style'' = Some \<lparr>val = Some ''solid'', important = True\<rparr>
     \<and> map fst m =
           [''border-top-width'', ''border-right-width'', ''border-bottom-width'',
            ''border-left-width'', ''border-top-style'', ''border-right-style'',
            ''border-bottom-style'', ''border-left-style'']"
proof -
  have t: "token (splitSpaces ''1px solid'') 0 = Some ''1px''"
    "token (splitSpaces ''1px solid'') 1 = Some ''solid''"
    "token (splitSpaces ''1px solid'') 2 = None"
    by code_simp+
  have w: "getBorderWidth ''1px'' True = Some [(''border-width'', \<lparr>val = Some ''1px'', important = True\<rparr>)]"
    by code_simp
  have s: "getBorderStyle ''solid'' True = Some [(''border-style'', \<lparr>val = Some ''solid'', important = True\<rparr>)]"
    by code_simp
  note a = getBorder_amended [of "''1px solid''" True]
  from a t w s have "getBorder ''1px solid'' True \<noteq> None"
    by simp
  then obtain m where m: "getBorder ''1px solid'' True = Some m"
    by auto
  from a m t w have f1: "map_of m ''border-top-width'' = Some \<lparr>val = Some ''1px'', important = True\<rparr>"
    and f2: "map_of m ''border-left-width'' = Some \<lparr>val = Some ''1px'', important = True\<rparr>"
    by blast+
  from a m t s have f3: "map_of m ''border-top-style'' = Some \<lparr>val = Some ''solid'', important = True\<rparr>"
    and f4: "map_of m ''border-left-style'' = Some \<lparr>val = Some ''solid'', important = True\<rparr>"
    by blast+
  from a m t have f5: "map fst m =
           [''border-top-width'', ''border-right-width'', ''border-bottom-width'',
            ''border-left-width'', ''border-top-style'', ''border-right-style'',
            ''border-bottom-style'', ''border-left-style'']"
    by simp
  show ?thesis
    by (rule exI [of _ m]) (simp only: m f1 f2 f3 f4 f5 simp_thms)
qed

text \<open>The directional form requires all three tokens and writes the color under its own key.\<close>

lemma getBorderByPosition_example:
  "getBorderByPosition top ''1px solid #fff'' False =
     Some [(''border-top-width'', \<lparr>val = Some ''1px'', important = False\<rparr>),
           (''border-top-style'', \<lparr>val = Some ''solid'', important = False\<rparr>),
           (''border-top-color'', \<lparr>val = Some ''#fff'', important = False\<rparr>)]
   \<and> getBorderByPosition top ''1px'' False = None"
  by code_simp

end
